theory Spec2Isabelle
  imports Main
begin

section \<open>JavaScript values, strings and errors\<close>

text \<open>
  The program is one TypeScript file, \<^verbatim>\<open>src/index.ts\<close>: the workflow \<^verbatim>\<open>MyWorkflow.run\<close>
  with its four steps, and the HTTP handler \<^verbatim>\<open>fetch\<close>. The values it handles come
  from \<^verbatim>\<open>JSON.parse\<close>, from the request body and from the AI binding (typed \<^verbatim>\<open>any\<close>), so
  they are modelled as untyped JavaScript values.

  A JavaScript string is a sequence of UTF-16 code units; \<^verbatim>\<open>substring\<close> counts code
  units. A string is therefore a list of code units, each a natural number below 65536.
  The string constants of the source are ASCII, but for one emoji; \<open>ascii\<close> embeds an
  ASCII literal.
\<close>

type_synonym jstring = "nat list"

definition ascii :: "string \<Rightarrow> jstring" where
  "ascii s = map of_char s"

text \<open>
  The program does no arithmetic; it only converts numbers to text and hands them to the
  database. A number is an integer (\<open>JNum\<close>) or one of the numbers that are no integers:
  a fraction, \<^verbatim>\<open>NaN\<close>, an infinity, minus zero (\<open>JNonInt\<close>). Of the latter the model keeps
  nothing but that they are numbers: what they print as is the platform's to say. An
  object is the list of its properties, in the order JavaScript enumerates them.
\<close>

typedecl nonint

datatype js =
    JUndefined
  | JNull
  | JBool bool
  | JNum int
  | JNonInt nonint
  | JStr jstring
  | JArr "js list"
  | JObj "(jstring \<times> js) list"

text \<open>
  What a \<^verbatim>\<open>throw\<close> carries: the two built-in errors the program can raise itself, the
  error of the database binding on a value it cannot bind, and whatever an external call
  throws.
\<close>

datatype error =
    TypeError
  | SyntaxError
  | D1_TYPE_ERROR
  | Thrown js

text \<open>
  Property access \<^verbatim>\<open>v.k\<close>, for the property names the program reads (\<^verbatim>\<open>response\<close>,
  \<^verbatim>\<open>source\<close>, \<^verbatim>\<open>content\<close>, \<^verbatim>\<open>sentiment\<close>, \<^verbatim>\<open>category\<close>, \<^verbatim>\<open>urgency\<close>), none of which is
  a property of a built-in prototype: on \<^verbatim>\<open>undefined\<close> and \<^verbatim>\<open>null\<close> it throws a TypeError,
  on an object it is the own property or \<^verbatim>\<open>undefined\<close>, on every other value it is
  \<^verbatim>\<open>undefined\<close>.
\<close>

fun get_prop :: "js \<Rightarrow> jstring \<Rightarrow> error + js" where
  "get_prop JUndefined k = Inl TypeError"
| "get_prop JNull k = Inl TypeError"
| "get_prop (JObj kvs) k = Inr (case map_of kvs k of None \<Rightarrow> JUndefined | Some v \<Rightarrow> v)"
| "get_prop v k = Inr JUndefined"

text \<open>
  Sequencing of two computations that may throw: the second runs on the value of the
  first, and what the first throws is what the whole throws.
\<close>

definition bind_result :: "error + 'a \<Rightarrow> ('a \<Rightarrow> error + 'b) \<Rightarrow> error + 'b" where
  "bind_result r f = (case r of Inl e \<Rightarrow> Inl e | Inr a \<Rightarrow> f a)"

text \<open>Decimal digits of a number, as \<^verbatim>\<open>String(n)\<close> prints an integer.\<close>

function show_nat :: "nat \<Rightarrow> jstring" where
  "show_nat n = (if n < 10 then [48 + n] else show_nat (n div 10) @ [48 + n mod 10])"
  by pat_completeness auto
termination
  by (relation "measure id") auto

declare show_nat.simps [simp del]

definition show_int :: "int \<Rightarrow> jstring" where
  "show_int i = (if i < 0 then 45 # show_nat (nat (- i)) else show_nat (nat i))"

fun join_comma :: "jstring list \<Rightarrow> jstring" where
  "join_comma [] = []"
| "join_comma [x] = x"
| "join_comma (x # y # ys) = x @ [44] @ join_comma (y # ys)"

section \<open>The platform\<close>

text \<open>
  The values a text column of the database holds: \<^verbatim>\<open>NULL\<close>, a text or a blob. All the
  columns the workflow writes and compares are text columns (see the database below).
\<close>

datatype sql_value =
    SqlNull
  | SqlText jstring
  | SqlBlob "nat list"

text \<open>
  What the program calls and does not define. Each is a parameter of the model: every
  theorem holds for whatever they do.
  \<^item> The AI binding \<^verbatim>\<open>env.AI.run\<close>, given the model's name and the messages, returns a
    value or throws.
  \<^item> \<^verbatim>\<open>JSON.parse\<close> (which \<^verbatim>\<open>request.json()\<close> applies to the body's text) returns a value or
    throws.
  \<^item> \<^verbatim>\<open>env.MY_WORKFLOW.create\<close>, given the run's parameters, returns the new instance's id
    or throws.
  \<^item> \<^verbatim>\<open>Number.prototype.toString\<close> on the numbers whose digits the model does not print
    itself: an integer of magnitude \<open>2 ^ 53\<close> or more (\<open>Inl\<close>) and a number that is no
    integer (\<open>Inr\<close>).
  \<^item> \<^verbatim>\<open>JSON.stringify\<close> on a number that is no integer.
  \<^item> What a text column holds of a boolean, a number or an array of numbers that the
    database binding is given (it binds numbers as floating point and the column
    converts them to text), or the error the binding throws on it.
\<close>

type_synonym message = "jstring \<times> jstring"

record platform =
  AI_run :: "jstring \<Rightarrow> message list \<Rightarrow> error + js"
  JSON_parse :: "jstring \<Rightarrow> error + js"
  MY_WORKFLOW_create :: "js \<Rightarrow> error + jstring"
  Number_toString :: "int + nonint \<Rightarrow> jstring"
  JSON_stringify_nonint :: "nonint \<Rightarrow> jstring"
  D1_text_column :: "js \<Rightarrow> error + sql_value"

section \<open>Conversion to a string\<close>

text \<open>The results of a list of computations, or what the first of them that throws throws.\<close>

fun collect :: "(error + 'a) list \<Rightarrow> error + 'a list" where
  "collect [] = Inr []"
| "collect (r # rs) =
     (case r of Inl e \<Rightarrow> Inl e
      | Inr x \<Rightarrow> (case collect rs of Inl e \<Rightarrow> Inl e | Inr xs \<Rightarrow> Inr (x # xs)))"

text \<open>
  \<^verbatim>\<open>ToString\<close>, which a template literal applies to each substitution and \<^verbatim>\<open>JSON.parse\<close>
  to its argument.
  \<^item> An integer of magnitude below \<open>2 ^ 53\<close> prints as its decimal digits; every other
    number as the platform prints it.
  \<^item> An array prints its elements joined by commas, \<^verbatim>\<open>null\<close> and \<^verbatim>\<open>undefined\<close> elements as
    the empty string; the conversion of an element may throw.
  \<^item> An object that has no property \<^verbatim>\<open>toString\<close> of its own prints as \<^verbatim>\<open>[object Object]\<close>,
    by the method it inherits. One that has such a property throws a TypeError: the
    values here are data, so the property is not callable, and \<^verbatim>\<open>valueOf\<close> (its own, or
    the inherited one, which returns the object) yields no primitive either.
\<close>

fun to_string :: "platform \<Rightarrow> js \<Rightarrow> error + jstring" where
  "to_string P JUndefined = Inr (ascii ''undefined'')"
| "to_string P JNull = Inr (ascii ''null'')"
| "to_string P (JBool b) = Inr (if b then ascii ''true'' else ascii ''false'')"
| "to_string P (JNum n) =
     Inr (if \<bar>n\<bar> < 2 ^ 53 then show_int n else Number_toString P (Inl n))"
| "to_string P (JNonInt x) = Inr (Number_toString P (Inr x))"
| "to_string P (JStr s) = Inr s"
| "to_string P (JArr xs) =
     (case collect (map (\<lambda>x. if x = JUndefined \<or> x = JNull then Inr [] else to_string P x) xs) of
        Inl e \<Rightarrow> Inl e
      | Inr ts \<Rightarrow> Inr (join_comma ts))"
| "to_string P (JObj kvs) =
     (if map_of kvs (ascii ''toString'') = None then Inr (ascii ''[object Object]'')
      else Inl TypeError)"

text \<open>
  \<^verbatim>\<open>s.substring(a, b)\<close>: the code units from \<open>min a b\<close> up to \<open>max a b\<close>, as many as
  the string has. On a value that is no string the call throws a TypeError (the value is
  \<^verbatim>\<open>null\<close> or \<^verbatim>\<open>undefined\<close>, or has no such method).
\<close>

fun substring :: "js \<Rightarrow> nat \<Rightarrow> nat \<Rightarrow> error + js" where
  "substring (JStr s) a b = Inr (JStr (take (max a b - min a b) (drop (min a b) s)))"
| "substring v a b = Inl TypeError"

subsection \<open>JSON.stringify\<close>

definition hex_digit :: "nat \<Rightarrow> nat" where
  "hex_digit d = (if d < 10 then 48 + d else 87 + d)"

definition unicode_escape :: "nat \<Rightarrow> jstring" where
  "unicode_escape c =
     [92, 117, hex_digit (c div 4096 mod 16), hex_digit (c div 256 mod 16),
      hex_digit (c div 16 mod 16), hex_digit (c mod 16)]"

definition escape_unit :: "nat \<Rightarrow> jstring" where
  "escape_unit c =
     (if c = 8 then [92, 98]
      else if c = 9 then [92, 116]
      else if c = 10 then [92, 110]
      else if c = 12 then [92, 102]
      else if c = 13 then [92, 114]
      else if c = 34 then [92, 34]
      else if c = 92 then [92, 92]
      else if c < 32 then unicode_escape c
      else [c])"

definition high_surrogate :: "nat \<Rightarrow> bool" where
  "high_surrogate c = (55296 \<le> c \<and> c < 56320)"

definition low_surrogate :: "nat \<Rightarrow> bool" where
  "low_surrogate c = (56320 \<le> c \<and> c < 57344)"

fun quote_units :: "jstring \<Rightarrow> jstring" where
  "quote_units [] = []"
| "quote_units [c] =
     (if high_surrogate c \<or> low_surrogate c then unicode_escape c else escape_unit c)"
| "quote_units (c # d # cs) =
     (if high_surrogate c \<and> low_surrogate d then c # d # quote_units cs
      else if high_surrogate c \<or> low_surrogate c then unicode_escape c @ quote_units (d # cs)
      else escape_unit c @ quote_units (d # cs))"

definition quote_json :: "jstring \<Rightarrow> jstring" where
  "quote_json s = [34] @ quote_units s @ [34]"

text \<open>
  The serialisation proper; \<open>None\<close> stands for the result \<^verbatim>\<open>undefined\<close>. An integer
  prints as its digits: the one number the program serialises is the count of the rows
  of a table. An array element that serialises to \<^verbatim>\<open>undefined\<close> prints as \<^verbatim>\<open>null\<close>, an
  object property that does is left out.
\<close>

fun serialize :: "platform \<Rightarrow> js \<Rightarrow> jstring option" where
  "serialize P JUndefined = None"
| "serialize P JNull = Some (ascii ''null'')"
| "serialize P (JBool b) = Some (if b then ascii ''true'' else ascii ''false'')"
| "serialize P (JNum n) = Some (show_int n)"
| "serialize P (JNonInt x) = Some (JSON_stringify_nonint P x)"
| "serialize P (JStr s) = Some (quote_json s)"
| "serialize P (JArr xs) =
     Some ([91] @ join_comma (map (\<lambda>x. case serialize P x of None \<Rightarrow> ascii ''null'' | Some t \<Rightarrow> t) xs)
           @ [93])"
| "serialize P (JObj kvs) =
     Some ([123] @ join_comma (concat (map (\<lambda>(k, v). case serialize P v of None \<Rightarrow> []
                                                   | Some t \<Rightarrow> [quote_json k @ [58] @ t]) kvs))
           @ [125])"

definition JSON_stringify :: "platform \<Rightarrow> js \<Rightarrow> js" where
  "JSON_stringify P v = (case serialize P v of None \<Rightarrow> JUndefined | Some t \<Rightarrow> JStr t)"

section \<open>Step 1: analyze-feedback\<close>

definition model_name :: jstring where
  "model_name = ascii ''@cf/meta/llama-3-8b-instruct''"

definition system_prompt :: jstring where
  "system_prompt = ascii (''You are a feedback analyzer. Analyze the following feedback and ''
     @ ''respond with JSON only containing: sentiment (positive/neutral/negative), ''
     @ ''category (bug/feature/question/complaint), urgency (low/medium/high), ''
     @ ''and a brief reason.'')"

text \<open>
  The messages are built inside the step, before the model is called: the template
  literal of the user message converts \<open>source\<close>, then \<open>content\<close>, and either conversion
  may throw.
\<close>

definition messages :: "platform \<Rightarrow> js \<Rightarrow> js \<Rightarrow> error + message list" where
  "messages P source content =
     bind_result (to_string P source) (\<lambda>s.
     bind_result (to_string P content) (\<lambda>c.
       Inr [(ascii ''system'', system_prompt),
            (ascii ''user'', ascii ''Source: '' @ s @ [10] @ ascii ''Feedback: '' @ c)]))"

definition fallback :: js where
  "fallback = JObj
     [(ascii ''sentiment'', JStr (ascii ''neutral'')),
      (ascii ''category'', JStr (ascii ''unknown'')),
      (ascii ''urgency'', JStr (ascii ''low'')),
      (ascii ''reason'', JStr (ascii ''Could not parse AI response''))]"

text \<open>
  The building of the messages and the call of the model stand before the \<^verbatim>\<open>try\<close>: what
  they throw leaves the step. Inside the \<^verbatim>\<open>try\<close> are the read of \<^verbatim>\<open>response.response\<close> and
  \<^verbatim>\<open>JSON.parse\<close>, which converts its argument to a string first; whatever any of these
  throws is caught and the fallback returned. A parsed value is returned as it is.
\<close>

definition analyze_feedback :: "platform \<Rightarrow> js \<Rightarrow> js \<Rightarrow> error + js" where
  "analyze_feedback P source content =
     (case messages P source content of
        Inl e \<Rightarrow> Inl e
      | Inr ms \<Rightarrow>
     (case AI_run P model_name ms of
        Inl e \<Rightarrow> Inl e
      | Inr response \<Rightarrow>
          (case get_prop response (ascii ''response'') of
             Inl e \<Rightarrow> Inr fallback
           | Inr reply \<Rightarrow>
               (case to_string P reply of
                  Inl e \<Rightarrow> Inr fallback
                | Inr t \<Rightarrow>
                    (case JSON_parse P t of
                       Inl e \<Rightarrow> Inr fallback
                     | Inr result \<Rightarrow> Inr result)))))"

section \<open>The database\<close>

text \<open>
  The D1 database holds two tables. \<^verbatim>\<open>README.md\<close> gives their columns: \<^verbatim>\<open>feedback\<close> with
  an integer primary key \<^verbatim>\<open>id\<close> and the text columns \<^verbatim>\<open>source\<close>, \<^verbatim>\<open>content\<close>,
  \<^verbatim>\<open>sentiment\<close>, \<^verbatim>\<open>category\<close>, \<^verbatim>\<open>urgency\<close>; \<^verbatim>\<open>aggregated_stats\<close> with an integer primary
  key \<^verbatim>\<open>id\<close> and the text columns \<^verbatim>\<open>stat_type\<close>, \<^verbatim>\<open>stat_value\<close>. The timestamp columns
  \<^verbatim>\<open>created_at\<close> and \<^verbatim>\<open>updated_at\<close>, which no statement of the workflow writes, are left
  out. A table is the list of its rows. The database is taken to be reachable: a
  statement throws only on a value it cannot bind.
\<close>

record feedback_row =
  fb_id :: nat
  fb_source :: sql_value
  fb_content :: sql_value
  fb_sentiment :: sql_value
  fb_category :: sql_value
  fb_urgency :: sql_value

record stat_row =
  st_id :: nat
  stat_type :: sql_value
  stat_value :: sql_value

record database =
  feedback :: "feedback_row list"
  aggregated_stats :: "stat_row list"

text \<open>
  \<^verbatim>\<open>bind\<close> of a prepared statement, and the value the text column then holds or is
  compared with. \<^verbatim>\<open>null\<close> is \<^verbatim>\<open>NULL\<close> and a string is a text. On \<^verbatim>\<open>undefined\<close>, on an
  object and on an array that holds anything but numbers the binding throws. A boolean,
  a number and an array of numbers are the platform's to convert.
\<close>

fun is_number :: "js \<Rightarrow> bool" where
  "is_number (JNum n) = True"
| "is_number (JNonInt x) = True"
| "is_number v = False"

fun d1_bind :: "platform \<Rightarrow> js \<Rightarrow> error + sql_value" where
  "d1_bind P JUndefined = Inl D1_TYPE_ERROR"
| "d1_bind P JNull = Inr SqlNull"
| "d1_bind P (JStr s) = Inr (SqlText s)"
| "d1_bind P (JArr xs) =
     (if list_all is_number xs then D1_text_column P (JArr xs) else Inl D1_TYPE_ERROR)"
| "d1_bind P (JObj kvs) = Inl D1_TYPE_ERROR"
| "d1_bind P v = D1_text_column P v"

text \<open>
  The comparison \<^verbatim>\<open>=\<close> of a \<^verbatim>\<open>WHERE\<close> clause holds of two equal values neither of which
  is \<^verbatim>\<open>NULL\<close>.
\<close>

definition sql_eq :: "sql_value \<Rightarrow> sql_value \<Rightarrow> bool" where
  "sql_eq a b = (a \<noteq> SqlNull \<and> b \<noteq> SqlNull \<and> a = b)"

text \<open>The id a row gets when none is given: one more than the largest in use.\<close>

definition next_rowid :: "nat list \<Rightarrow> nat" where
  "next_rowid ids = Suc (fold max ids 0)"

section \<open>Step 2: store-feedback\<close>

text \<open>
  \<^verbatim>\<open>INSERT INTO feedback (source, content, sentiment, category, urgency) VALUES (?, ?, ?, ?, ?)\<close>.
  The three properties of \<open>analysis\<close> are read, then the five values bound, then the
  row inserted; a throw leaves the table as it was.
\<close>

definition store_feedback :: "platform \<Rightarrow> js \<Rightarrow> js \<Rightarrow> js \<Rightarrow> database \<Rightarrow> error + database" where
  "store_feedback P analysis source content d =
     bind_result (get_prop analysis (ascii ''sentiment'')) (\<lambda>sentiment.
     bind_result (get_prop analysis (ascii ''category'')) (\<lambda>category.
     bind_result (get_prop analysis (ascii ''urgency'')) (\<lambda>urgency.
     bind_result (d1_bind P source) (\<lambda>b1.
     bind_result (d1_bind P content) (\<lambda>b2.
     bind_result (d1_bind P sentiment) (\<lambda>b3.
     bind_result (d1_bind P category) (\<lambda>b4.
     bind_result (d1_bind P urgency) (\<lambda>b5.
       Inr (d\<lparr>feedback := feedback d @
              [\<lparr>fb_id = next_rowid (map fb_id (feedback d)),
                fb_source = b1, fb_content = b2, fb_sentiment = b3, fb_category = b4,
                fb_urgency = b5\<rparr>]\<rparr>)))))))))"

section \<open>Step 3: update-stats\<close>

text \<open>\<^verbatim>\<open>SELECT COUNT(*) as count FROM feedback WHERE category = ?\<close>, and \<^verbatim>\<open>first()\<close> of it.\<close>

definition count_category :: "sql_value \<Rightarrow> feedback_row list \<Rightarrow> js" where
  "count_category b rows =
     JObj [(ascii ''count'',
            JNum (int (length (filter (\<lambda>r. sql_eq (fb_category r) b) rows))))]"

text \<open>
  \<^verbatim>\<open>INSERT OR REPLACE INTO aggregated_stats (id, stat_type, stat_value)
  VALUES ((SELECT id FROM aggregated_stats WHERE stat_type = ?), ?, ?)\<close>.
  The subquery is the id of the row with that \<^verbatim>\<open>stat_type\<close>, or \<^verbatim>\<open>NULL\<close> when there is
  none. With \<^verbatim>\<open>NULL\<close> the new row gets a fresh id; otherwise the id is in use and
  \<^verbatim>\<open>OR REPLACE\<close> deletes the row that has it before the new row goes in. (On a table
  where no two rows have the same \<^verbatim>\<open>stat_type\<close>, no other row can conflict with the new
  one.)
\<close>

definition select_id :: "sql_value \<Rightarrow> stat_row list \<Rightarrow> nat option" where
  "select_id k rows = map_option st_id (find (\<lambda>r. sql_eq (stat_type r) k) rows)"

definition insert_or_replace :: "sql_value \<Rightarrow> sql_value \<Rightarrow> sql_value \<Rightarrow> stat_row list \<Rightarrow> stat_row list" where
  "insert_or_replace k1 k2 v rows =
     (let i = (case select_id k1 rows of None \<Rightarrow> next_rowid (map st_id rows) | Some j \<Rightarrow> j)
      in filter (\<lambda>r. st_id r \<noteq> i) rows @ [\<lparr>st_id = i, stat_type = k2, stat_value = v\<rparr>])"

text \<open>The template literal \<^verbatim>\<open>category_${analysis.category}\<close>; the conversion may throw.\<close>

definition stat_key :: "platform \<Rightarrow> js \<Rightarrow> error + jstring" where
  "stat_key P category =
     bind_result (to_string P category) (\<lambda>t. Inr (ascii ''category_'' @ t))"

text \<open>
  The count query is bound and run first; then the arguments of the second \<^verbatim>\<open>bind\<close> are
  evaluated (the key twice, the serialised row), bound, and the statement run.
\<close>

definition update_stats :: "platform \<Rightarrow> js \<Rightarrow> database \<Rightarrow> error + database" where
  "update_stats P analysis d =
     bind_result (get_prop analysis (ascii ''category'')) (\<lambda>category.
     bind_result (d1_bind P category) (\<lambda>b.
     let categoryCount = count_category b (feedback d) in
     bind_result (stat_key P category) (\<lambda>key1.
     bind_result (stat_key P category) (\<lambda>key2.
     bind_result (d1_bind P (JStr key1)) (\<lambda>k1.
     bind_result (d1_bind P (JStr key2)) (\<lambda>k2.
     bind_result (d1_bind P (JSON_stringify P categoryCount)) (\<lambda>v.
       Inr (d\<lparr>aggregated_stats := insert_or_replace k1 k2 v (aggregated_stats d)\<rparr>))))))))"

section \<open>Step 4: check-urgency\<close>

text \<open>The emoji U+1F6A8 that opens the message, as its two UTF-16 code units.\<close>

definition siren :: jstring where
  "siren = [55357, 57000]"

text \<open>
  The object literal is evaluated in order: the message, whose template literal converts
  the category, then the source; then \<^verbatim>\<open>content.substring(0, 100)\<close>.
\<close>

definition check_urgency :: "platform \<Rightarrow> js \<Rightarrow> js \<Rightarrow> js \<Rightarrow> error + js" where
  "check_urgency P analysis source content =
     bind_result (get_prop analysis (ascii ''urgency'')) (\<lambda>urgency.
     if urgency = JStr (ascii ''high'') then
       bind_result (get_prop analysis (ascii ''category'')) (\<lambda>category.
       bind_result (to_string P category) (\<lambda>c.
       bind_result (to_string P source) (\<lambda>s.
       bind_result (substring content 0 100) (\<lambda>excerpt.
         Inr (JObj
           [(ascii ''alert'', JBool True),
            (ascii ''message'',
             JStr (siren @ ascii '' High urgency '' @ c @ ascii '' detected from '' @ s)),
            (ascii ''content'', excerpt)])))))
     else Inr (JObj [(ascii ''alert'', JBool False)]))"

section \<open>The workflow\<close>

text \<open>
  The state the program acts on: the database, the names of the workflow steps the host
  has started (in order), and the workflow instances created, each with its id and
  parameters.
\<close>

record world =
  db :: database
  step_log :: "jstring list"
  instances :: "(jstring \<times> js) list"

text \<open>
  A computation on the world returns a value or throws, and leaves a world. \<^verbatim>\<open>step.do\<close>
  records the step's name and runs its body; what the body throws fails the run (the
  host's retries of a failed step are not modelled: a body here throws again when run
  again on the same world).
\<close>

type_synonym 'a prog = "world \<Rightarrow> (error + 'a) \<times> world"

definition and_then :: "'a prog \<Rightarrow> ('a \<Rightarrow> 'b prog) \<Rightarrow> 'b prog" where
  "and_then m f = (\<lambda>w. case m w of (Inl e, w') \<Rightarrow> (Inl e, w') | (Inr a, w') \<Rightarrow> f a w')"

definition pure_body :: "error + 'a \<Rightarrow> 'a prog" where
  "pure_body r = (\<lambda>w. (r, w))"

definition db_body :: "(database \<Rightarrow> error + database) \<Rightarrow> unit prog" where
  "db_body f = (\<lambda>w. case f (db w) of Inl e \<Rightarrow> (Inl e, w) | Inr d \<Rightarrow> (Inr (), w\<lparr>db := d\<rparr>))"

definition step_do :: "jstring \<Rightarrow> 'a prog \<Rightarrow> 'a prog" where
  "step_do name body = (\<lambda>w. body (w\<lparr>step_log := step_log w @ [name]\<rparr>))"

text \<open>
  \<^verbatim>\<open>MyWorkflow.run\<close>: the payload is destructured, the four steps run one after the other,
  and the result is \<^verbatim>\<open>{ success: true, analysis, alert }\<close>.
\<close>

definition run :: "platform \<Rightarrow> js \<Rightarrow> js prog" where
  "run P payload =
     and_then (pure_body (get_prop payload (ascii ''source''))) (\<lambda>source.
     and_then (pure_body (get_prop payload (ascii ''content''))) (\<lambda>content.
     and_then (step_do (ascii ''analyze-feedback'')
                (pure_body (analyze_feedback P source content))) (\<lambda>analysis.
     and_then (step_do (ascii ''store-feedback'')
                (db_body (store_feedback P analysis source content))) (\<lambda>_.
     and_then (step_do (ascii ''update-stats'')
                (db_body (update_stats P analysis))) (\<lambda>_.
     and_then (step_do (ascii ''check-urgency'')
                (pure_body (check_urgency P analysis source content))) (\<lambda>alert.
     pure_body (Inr (JObj
       [(ascii ''success'', JBool True),
        (ascii ''analysis'', analysis),
        (ascii ''alert'', alert)]))))))))"

section \<open>The HTTP handler\<close>

datatype body = NoBody | TextBody jstring | JsonBody js

record request =
  req_method :: jstring
  req_pathname :: jstring
  req_body :: jstring

text \<open>A response: its status, the headers the handler gives it, and its body.\<close>

record response =
  status :: nat
  headers :: "(jstring \<times> jstring) list"
  resp_body :: body

definition corsHeaders :: "(jstring \<times> jstring) list" where
  "corsHeaders =
     [(ascii ''Access-Control-Allow-Origin'', ascii ''*''),
      (ascii ''Access-Control-Allow-Methods'', ascii ''GET, POST, OPTIONS''),
      (ascii ''Access-Control-Allow-Headers'', ascii ''Content-Type'')]"

text \<open>
  The route \<^verbatim>\<open>POST /api/feedback\<close>. Inside the \<^verbatim>\<open>try\<close> are \<^verbatim>\<open>request.json()\<close> and the
  creation of the workflow instance with the body as its parameters; whatever either
  throws is caught and answered with status 400. A created instance is recorded.
\<close>

definition invalid_request_body :: response where
  "invalid_request_body =
     \<lparr>status = 400, headers = corsHeaders,
      resp_body = JsonBody (JObj [(ascii ''error'', JStr (ascii ''Invalid request body''))])\<rparr>"

definition post_feedback :: "platform \<Rightarrow> request \<Rightarrow> world \<Rightarrow> response \<times> world" where
  "post_feedback P request w =
     (case JSON_parse P (req_body request) of
        Inl e \<Rightarrow> (invalid_request_body, w)
      | Inr body \<Rightarrow>
          (case MY_WORKFLOW_create P body of
             Inl e \<Rightarrow> (invalid_request_body, w)
           | Inr instance_id \<Rightarrow>
               (\<lparr>status = 200, headers = corsHeaders,
                 resp_body = JsonBody (JObj [(ascii ''success'', JBool True),
                                            (ascii ''workflowId'', JStr instance_id)])\<rparr>,
                w\<lparr>instances := instances w @ [(instance_id, body)]\<rparr>)))"

text \<open>
  \<^verbatim>\<open>fetch\<close>: the preflight answer first, then the routes. The routes after the first
  (the two \<^verbatim>\<open>GET\<close> queries, the dashboard page and the 404 answer) only read the
  database; they are the parameter \<open>read_routes\<close>.
\<close>

definition fetch ::
  "platform \<Rightarrow> (request \<Rightarrow> world \<Rightarrow> response) \<Rightarrow> request \<Rightarrow> world \<Rightarrow> response \<times> world" where
  "fetch P read_routes request w =
     (if req_method request = ascii ''OPTIONS''
      then (\<lparr>status = 200, headers = corsHeaders, resp_body = NoBody\<rparr>, w)
      else if req_pathname request = ascii ''/api/feedback'' \<and> req_method request = ascii ''POST''
      then post_feedback P request w
      else (read_routes request w, w))"

section \<open>Notions the properties are stated with\<close>

text \<open>The four fields of a classification, each present and neither \<^verbatim>\<open>null\<close> nor \<^verbatim>\<open>undefined\<close>.\<close>

definition populated :: "js \<Rightarrow> bool" where
  "populated a =
     list_all (\<lambda>k. case get_prop a k of Inl e \<Rightarrow> False | Inr v \<Rightarrow> v \<noteq> JUndefined \<and> v \<noteq> JNull)
       [ascii ''sentiment'', ascii ''category'', ascii ''urgency'', ascii ''reason'']"


text \<open>
  Modelled from the spec: \<^verbatim>\<open>schema.sql\<close>, which declares the tables, is not among the
  sources. The spec gives the table as \<^verbatim>\<open>aggregated_stats(id, stat_type unique, stat_value,
  updated_at)\<close>, and \<^verbatim>\<open>README.md\<close> gives \<^verbatim>\<open>id\<close> as the primary key. So: no two rows have
  the same \<^verbatim>\<open>id\<close>, and no two rows have the same \<^verbatim>\<open>stat_type\<close> (rows whose \<^verbatim>\<open>stat_type\<close>
  is \<^verbatim>\<open>NULL\<close> apart, as in SQL). The empty table satisfies both and \<^verbatim>\<open>update-stats\<close>
  keeps them.
\<close>

definition stats_wf :: "stat_row list \<Rightarrow> bool" where
  "stats_wf rows =
     (distinct (map st_id rows) \<and>
      distinct (map stat_type (filter (\<lambda>r. stat_type r \<noteq> SqlNull) rows)))"

text \<open>The id \<^verbatim>\<open>INSERT OR REPLACE\<close> writes the row of key \<open>s\<close> under.\<close>

definition upsert_id :: "jstring \<Rightarrow> stat_row list \<Rightarrow> nat" where
  "upsert_id s rows =
     (case select_id (SqlText s) rows of None \<Rightarrow> next_rowid (map st_id rows) | Some j \<Rightarrow> j)"

text \<open>The text \<^verbatim>\<open>{"count":n}\<close>.\<close>

definition dquote :: string where
  "dquote = [CHR 0x22]"

definition count_text :: "nat \<Rightarrow> jstring" where
  "count_text n = ascii (''{'' @ dquote @ ''count'' @ dquote @ '':'') @ show_nat n @ ascii ''}''"

section \<open>Example inputs\<close>

text \<open>
  A reply of the model with the four fields, as text and as the value \<^verbatim>\<open>JSON.parse\<close>
  makes of it.
\<close>

definition bug_report_text :: jstring where
  "bug_report_text = ascii
     (''{'' @ dquote @ ''sentiment'' @ dquote @ '':'' @ dquote @ ''negative'' @ dquote @ '',''
      @ dquote @ ''category'' @ dquote @ '':'' @ dquote @ ''bug'' @ dquote @ '',''
      @ dquote @ ''urgency'' @ dquote @ '':'' @ dquote @ ''high'' @ dquote @ '',''
      @ dquote @ ''reason'' @ dquote @ '':'' @ dquote @ ''test'' @ dquote @ ''}'')"

definition bug_report :: js where
  "bug_report = JObj
     [(ascii ''sentiment'', JStr (ascii ''negative'')),
      (ascii ''category'', JStr (ascii ''bug'')),
      (ascii ''urgency'', JStr (ascii ''high'')),
      (ascii ''reason'', JStr (ascii ''test''))]"

text \<open>A reply whose category is \<^verbatim>\<open>null\<close>, as text and as parsed.\<close>

definition uncategorised_text :: jstring where
  "uncategorised_text = ascii
     (''{'' @ dquote @ ''sentiment'' @ dquote @ '':'' @ dquote @ ''neutral'' @ dquote @ '',''
      @ dquote @ ''category'' @ dquote @ '':null,''
      @ dquote @ ''urgency'' @ dquote @ '':'' @ dquote @ ''low'' @ dquote @ '',''
      @ dquote @ ''reason'' @ dquote @ '':'' @ dquote @ ''none'' @ dquote @ ''}'')"

definition uncategorised :: js where
  "uncategorised = JObj
     [(ascii ''sentiment'', JStr (ascii ''neutral'')),
      (ascii ''category'', JNull),
      (ascii ''urgency'', JStr (ascii ''low'')),
      (ascii ''reason'', JStr (ascii ''none''))]"

text \<open>
  An object with a property \<^verbatim>\<open>toString\<close> of its own, which \<^verbatim>\<open>JSON.parse\<close> makes of
  \<^verbatim>\<open>{"toString":1}\<close>, and a classification of high urgency that has it as category.
\<close>

definition unprintable :: js where
  "unprintable = JObj [(ascii ''toString'', JNum 1)]"

definition unprintable_report :: js where
  "unprintable_report = JObj
     [(ascii ''sentiment'', JStr (ascii ''negative'')),
      (ascii ''category'', unprintable),
      (ascii ''urgency'', JStr (ascii ''high'')),
      (ascii ''reason'', JStr (ascii ''test''))]"

text \<open>A request body, as text and as parsed.\<close>

definition submission_text :: jstring where
  "submission_text = ascii
     (''{'' @ dquote @ ''source'' @ dquote @ '':'' @ dquote @ ''Discord'' @ dquote @ '',''
      @ dquote @ ''content'' @ dquote @ '':'' @ dquote @ ''The dashboard is loading really slow''
      @ dquote @ ''}'')"

definition submission :: js where
  "submission = JObj
     [(ascii ''source'', JStr (ascii ''Discord'')),
      (ascii ''content'', JStr (ascii ''The dashboard is loading really slow''))]"

text \<open>
  \<^verbatim>\<open>JSON.parse\<close> on the texts of the examples: the three above, \<^verbatim>\<open>{}\<close> and \<^verbatim>\<open>null\<close>, which
  are JSON, and \<^verbatim>\<open>not json\<close>, which is not and falls under the last case.
\<close>

definition parse_table :: "jstring \<Rightarrow> error + js" where
  "parse_table t =
     (if t = bug_report_text then Inr bug_report
      else if t = uncategorised_text then Inr uncategorised
      else if t = submission_text then Inr submission
      else if t = ascii ''{}'' then Inr (JObj [])
      else if t = ascii ''null'' then Inr JNull
      else Inl SyntaxError)"

text \<open>
  A platform whose model returns the value \<open>v\<close>, one whose model replies with the text
  \<open>t\<close>, one whose model throws, and one whose workflow binding throws. The examples
  hold no number but a count, and no boolean or array: the platform's three conversions
  of those are never called in them.
\<close>

definition returning :: "js \<Rightarrow> platform" where
  "returning v =
     \<lparr>AI_run = (\<lambda>model ms. Inr v),
      JSON_parse = parse_table,
      MY_WORKFLOW_create = (\<lambda>params. Inr (ascii ''run-1'')),
      Number_toString = (\<lambda>x. ascii ''NaN''),
      JSON_stringify_nonint = (\<lambda>x. ascii ''null''),
      D1_text_column = (\<lambda>v. Inl D1_TYPE_ERROR)\<rparr>"

definition replying :: "jstring \<Rightarrow> platform" where
  "replying t = returning (JObj [(ascii ''response'', JStr t)])"

definition model_down :: platform where
  "model_down =
     (returning JNull)\<lparr>AI_run := (\<lambda>model ms. Inl (Thrown (JStr (ascii ''model unavailable''))))\<rparr>"

definition workflows_down :: platform where
  "workflows_down =
     (replying bug_report_text)\<lparr>MY_WORKFLOW_create :=
       (\<lambda>params. Inl (Thrown (JStr (ascii ''workflows unavailable''))))\<rparr>"

text \<open>The rows of \<^verbatim>\<open>seed.sql\<close>, and a statistics row for the two bug reports among them.\<close>

definition seed_row :: "nat \<Rightarrow> string \<Rightarrow> string \<Rightarrow> string \<Rightarrow> string \<Rightarrow> string \<Rightarrow> feedback_row" where
  "seed_row i src txt sentiment category urgency =
     \<lparr>fb_id = i, fb_source = SqlText (ascii src), fb_content = SqlText (ascii txt),
      fb_sentiment = SqlText (ascii sentiment), fb_category = SqlText (ascii category),
      fb_urgency = SqlText (ascii urgency)\<rparr>"

definition seed :: database where
  "seed =
     \<lparr>feedback =
        [seed_row 1 ''Discord'' ''The new dashboard is loading really slow'' ''negative'' ''bug'' ''high'',
         seed_row 2 ''GitHub'' ''Can we add dark mode support?'' ''neutral'' ''feature'' ''medium'',
         seed_row 3 ''Support Ticket'' ''I love the new API features!'' ''positive'' ''feature'' ''low'',
         seed_row 4 ''Twitter'' ''Getting 500 errors when uploading files'' ''negative'' ''bug'' ''high'',
         seed_row 5 ''Email'' ''Documentation could be clearer on authentication'' ''neutral''
           ''question'' ''medium''],
      aggregated_stats =
        [\<lparr>st_id = 1, stat_type = SqlText (ascii ''category_bug''), stat_value = SqlText (count_text 2)\<rparr>]\<rparr>"

text \<open>
  The seed after \<^verbatim>\<open>store-feedback\<close> of the classified submission, and after
  \<^verbatim>\<open>update-stats\<close> as well.
\<close>

definition seed_stored :: database where
  "seed_stored =
     seed\<lparr>feedback := feedback seed @
       [seed_row 6 ''Discord'' ''The dashboard is loading really slow'' ''negative'' ''bug'' ''high'']\<rparr>"

definition seed_counted :: database where
  "seed_counted =
     seed_stored\<lparr>aggregated_stats :=
       [\<lparr>st_id = 1, stat_type = SqlText (ascii ''category_bug''), stat_value = SqlText (count_text 3)\<rparr>]\<rparr>"

text \<open>
  The seed after \<^verbatim>\<open>store-feedback\<close> of the submission classified without a category, and
  after \<^verbatim>\<open>update-stats\<close> as well.
\<close>

definition seed_uncategorised :: database where
  "seed_uncategorised =
     seed\<lparr>feedback := feedback seed @
       [\<lparr>fb_id = 6, fb_source = SqlText (ascii ''Discord''),
         fb_content = SqlText (ascii ''The dashboard is loading really slow''),
         fb_sentiment = SqlText (ascii ''neutral''), fb_category = SqlNull,
         fb_urgency = SqlText (ascii ''low'')\<rparr>]\<rparr>"

definition seed_uncategorised_counted :: database where
  "seed_uncategorised_counted =
     seed_uncategorised\<lparr>aggregated_stats := aggregated_stats seed @
       [\<lparr>st_id = 2, stat_type = SqlText (ascii ''category_null''),
         stat_value = SqlText (count_text 0)\<rparr>]\<rparr>"

definition seed_world :: world where
  "seed_world = \<lparr>db = seed, step_log = [], instances = []\<rparr>"

definition post_request :: "jstring \<Rightarrow> request" where
  "post_request t =
     \<lparr>req_method = ascii ''POST'', req_pathname = ascii ''/api/feedback'', req_body = t\<rparr>"

text \<open>The routes that only read, answered with 404 for the examples' sake.\<close>

definition not_found :: "request \<Rightarrow> world \<Rightarrow> response" where
  "not_found request w = \<lparr>status = 404, headers = corsHeaders, resp_body = TextBody (ascii ''Not Found'')\<rparr>"

section \<open>Strings and serialisation\<close>

lemma ascii_eq_iff [simp]: "ascii a = ascii b \<longleftrightarrow> a = b"
  by (simp add: ascii_def inj_map_eq_map [OF inj_of_char])

lemma show_nat_digit: "n < 10 \<Longrightarrow> show_nat n = [48 + n]"
  by (simp add: show_nat.simps)

lemma show_nat_digits: "set (show_nat n) \<subseteq> {48..57}"
proof (induction n rule: show_nat.induct)
  case (1 n)
  show ?case
  proof (cases "n < 10")
    case True
    then show ?thesis by (simp add: show_nat_digit)
  next
    case False
    have "n mod 10 < 10" by simp
    then have "48 + n mod 10 \<in> {48..57}" by auto
    moreover have "set (show_nat (n div 10)) \<subseteq> {48..57}" using False "1.IH" by simp
    moreover have "show_nat n = show_nat (n div 10) @ [48 + n mod 10]"
      using False by (subst show_nat.simps) simp
    ultimately show ?thesis by simp
  qed
qed

lemma count_text_not_bare: "count_text n \<noteq> show_nat n"
proof
  assume eq: "count_text n = show_nat n"
  have "125 \<in> set (count_text n)" by (simp add: count_text_def ascii_def)
  then have "(125::nat) \<in> {48..57}" using show_nat_digits [of n] eq by auto
  then show False by simp
qed

lemma quote_json_count: "quote_json (ascii ''count'') = ascii (dquote @ ''count'' @ dquote)"
  by (simp add: ascii_def dquote_def quote_json_def high_surrogate_def low_surrogate_def escape_unit_def)

lemma stringify_count:
  "JSON_stringify P (count_category b rows) =
     JStr (count_text (length (filter (\<lambda>r. sql_eq (fb_category r) b) rows)))"
  by (simp add: JSON_stringify_def count_category_def quote_json_count show_int_def count_text_def)
     (simp add: ascii_def)

section \<open>The statistics table\<close>

lemma fold_max_bounds:
  "a \<le> fold max ids a \<and> (\<forall>i \<in> set ids. i \<le> fold max ids (a::nat))"
proof (induction ids arbitrary: a)
  case Nil
  show ?case by simp
next
  case (Cons x xs)
  have "max x a \<le> fold max xs (max x a)" using Cons.IH by blast
  moreover have "\<forall>i \<in> set xs. i \<le> fold max xs (max x a)" using Cons.IH by blast
  ultimately show ?case by auto
qed

lemma next_rowid_fresh: "next_rowid ids \<notin> set ids"
proof
  assume "next_rowid ids \<in> set ids"
  then have "next_rowid ids \<le> fold max ids 0" using fold_max_bounds by blast
  then show False by (simp add: next_rowid_def)
qed

lemma select_id_None:
  "select_id (SqlText s) rows = None \<Longrightarrow> r \<in> set rows \<Longrightarrow> stat_type r \<noteq> SqlText s"
  by (auto simp: select_id_def find_None_iff sql_eq_def)

lemma select_id_Some:
  assumes "select_id (SqlText s) rows = Some j"
  shows "\<exists>r \<in> set rows. st_id r = j \<and> stat_type r = SqlText s"
proof -
  from assms obtain r where "find (\<lambda>r. sql_eq (stat_type r) (SqlText s)) rows = Some r" "st_id r = j"
    by (auto simp: select_id_def)
  then show ?thesis by (auto simp: find_Some_iff sql_eq_def)
qed

lemma wf_same_key:
  assumes "stats_wf rows" "r \<in> set rows" "r' \<in> set rows"
    "stat_type r = SqlText s" "stat_type r' = SqlText s"
  shows "r = r'"
proof -
  from assms(1) have "inj_on stat_type (set (filter (\<lambda>r. stat_type r \<noteq> SqlNull) rows))"
    by (simp add: stats_wf_def distinct_map)
  moreover have "r \<in> set (filter (\<lambda>r. stat_type r \<noteq> SqlNull) rows)"
    "r' \<in> set (filter (\<lambda>r. stat_type r \<noteq> SqlNull) rows)"
    using assms by auto
  ultimately show ?thesis using assms(4,5) inj_onD [of stat_type _ r r'] by simp
qed

lemma wf_same_id:
  assumes "stats_wf rows" "r \<in> set rows" "r' \<in> set rows" "st_id r = st_id r'"
  shows "r = r'"
  using assms by (auto simp: stats_wf_def distinct_map dest: inj_onD)

lemma insert_or_replace_eq:
  "insert_or_replace (SqlText s) (SqlText s) (SqlText v) rows =
     filter (\<lambda>r. st_id r \<noteq> upsert_id s rows) rows @
       [\<lparr>st_id = upsert_id s rows, stat_type = SqlText s, stat_value = SqlText v\<rparr>]"
  by (simp add: insert_or_replace_def upsert_id_def Let_def)

lemma kept_rows:
  assumes "stats_wf rows" "r \<in> set rows"
  shows "st_id r \<noteq> upsert_id s rows \<longleftrightarrow> stat_type r \<noteq> SqlText s"
proof (cases "select_id (SqlText s) rows")
  case None
  have "st_id r \<in> set (map st_id rows)" using assms(2) by simp
  then have "st_id r \<noteq> next_rowid (map st_id rows)" using next_rowid_fresh by metis
  then show ?thesis using None assms(2) by (auto simp: upsert_id_def dest: select_id_None)
next
  case (Some j)
  then obtain r0 where r0: "r0 \<in> set rows" "st_id r0 = j" "stat_type r0 = SqlText s"
    using select_id_Some by blast
  have "upsert_id s rows = j" using Some by (simp add: upsert_id_def)
  then show ?thesis
    using r0 assms wf_same_key [OF assms(1) assms(2) r0(1)] wf_same_id [OF assms(1) assms(2) r0(1)]
    by auto
qed

lemma filter_kept:
  assumes "stats_wf rows"
  shows "filter (\<lambda>r. st_id r \<noteq> upsert_id s rows) rows = filter (\<lambda>r. stat_type r \<noteq> SqlText s) rows"
  by (rule filter_cong) (auto simp: kept_rows [OF assms])

lemma upsert_rows:
  assumes "stats_wf rows"
  shows "insert_or_replace (SqlText s) (SqlText s) (SqlText v) rows =
     filter (\<lambda>r. stat_type r \<noteq> SqlText s) rows @
       [\<lparr>st_id = upsert_id s rows, stat_type = SqlText s, stat_value = SqlText v\<rparr>]"
  by (simp add: insert_or_replace_eq filter_kept [OF assms])

lemma upsert_wf:
  assumes "stats_wf rows"
  shows "stats_wf (insert_or_replace (SqlText s) (SqlText s) (SqlText v) rows)"
proof -
  let ?i = "upsert_id s rows"
  let ?kept = "filter (\<lambda>r. st_id r \<noteq> ?i) rows"
  have ids: "distinct (map st_id ?kept)" using assms by (simp add: stats_wf_def distinct_map_filter)
  have fresh: "?i \<notin> st_id ` set ?kept" by auto
  have "filter (\<lambda>r. stat_type r \<noteq> SqlNull) ?kept =
        filter (\<lambda>r. st_id r \<noteq> ?i) (filter (\<lambda>r. stat_type r \<noteq> SqlNull) rows)"
    by (simp add: conj_commute)
  then have keys: "distinct (map stat_type (filter (\<lambda>r. stat_type r \<noteq> SqlNull) ?kept))"
    using assms by (simp only: stats_wf_def distinct_map_filter)
  have nokey: "SqlText s \<notin> stat_type ` set ?kept"
    using kept_rows [OF assms] by auto
  show ?thesis
    unfolding insert_or_replace_eq stats_wf_def using ids fresh keys nokey by auto
qed

lemma find_append:
  "find P (xs @ ys) = (case find P xs of None \<Rightarrow> find P ys | Some x \<Rightarrow> Some x)"
  by (induction xs) auto

lemma upsert_id_again:
  assumes "stats_wf rows"
  shows "upsert_id s (insert_or_replace (SqlText s) (SqlText s) (SqlText v) rows) = upsert_id s rows"
proof -
  have "find (\<lambda>r. sql_eq (stat_type r) (SqlText s)) (filter (\<lambda>r. stat_type r \<noteq> SqlText s) rows) = None"
    by (auto simp: find_None_iff sql_eq_def)
  then show ?thesis
    by (simp add: upsert_rows [OF assms] upsert_id_def [of s "_ @ _"] select_id_def find_append sql_eq_def)
qed

lemma upsert_twice:
  assumes "stats_wf rows"
  shows "insert_or_replace (SqlText s) (SqlText s) (SqlText v)
           (insert_or_replace (SqlText s) (SqlText s) (SqlText v) rows)
         = insert_or_replace (SqlText s) (SqlText s) (SqlText v) rows"
proof -
  let ?rows1 = "insert_or_replace (SqlText s) (SqlText s) (SqlText v) rows"
  have wf1: "stats_wf ?rows1" by (rule upsert_wf [OF assms])
  have "insert_or_replace (SqlText s) (SqlText s) (SqlText v) ?rows1 =
     filter (\<lambda>r. stat_type r \<noteq> SqlText s) ?rows1 @
       [\<lparr>st_id = upsert_id s ?rows1, stat_type = SqlText s, stat_value = SqlText v\<rparr>]"
    by (rule upsert_rows [OF wf1])
  also have "filter (\<lambda>r. stat_type r \<noteq> SqlText s) ?rows1 = filter (\<lambda>r. stat_type r \<noteq> SqlText s) rows"
    by (simp add: upsert_rows [OF assms])
  also have "upsert_id s ?rows1 = upsert_id s rows" by (rule upsert_id_again [OF assms])
  finally show ?thesis by (simp add: upsert_rows [OF assms])
qed

section \<open>The steps on the database\<close>

lemma sql_eq_text: "sql_eq x (SqlText s) \<longleftrightarrow> x = SqlText s"
  by (auto simp: sql_eq_def)

lemma sql_eq_same: "b \<noteq> SqlNull \<Longrightarrow> sql_eq x b \<longleftrightarrow> x = b"
  by (auto simp: sql_eq_def)

lemma numbers_have_text:
  "list_all is_number xs \<Longrightarrow>
     \<exists>ts. collect (map (\<lambda>x. if x = JUndefined \<or> x = JNull then Inr [] else to_string P x) xs) = Inr ts"
proof (induction xs)
  case Nil
  show ?case by simp
next
  case (Cons x xs)
  then obtain ts where
    "collect (map (\<lambda>x. if x = JUndefined \<or> x = JNull then Inr [] else to_string P x) xs) = Inr ts"
    by auto
  moreover from Cons.prems have "\<exists>t. to_string P x = Inr t" by (cases x) auto
  ultimately show ?case by auto
qed

lemma bound_has_text:
  assumes "d1_bind P v = Inr b"
  shows "\<exists>t. to_string P v = Inr t"
proof (cases v)
  case (JArr xs)
  with assms have "list_all is_number xs" by (auto split: if_splits)
  from numbers_have_text [OF this, of P] JArr show ?thesis by auto
next
  case (JObj kvs)
  with assms show ?thesis by simp
qed (use assms in auto)

lemma update_stats_eq:
  assumes "get_prop analysis (ascii ''category'') = Inr category"
    and "d1_bind P category = Inr b"
    and "to_string P category = Inr t"
  shows "update_stats P analysis d =
     Inr (d\<lparr>aggregated_stats :=
            insert_or_replace (SqlText (ascii ''category_'' @ t)) (SqlText (ascii ''category_'' @ t))
              (SqlText (count_text (length (filter (\<lambda>r. sql_eq (fb_category r) b) (feedback d)))))
              (aggregated_stats d)\<rparr>)"
  using assms by (simp add: update_stats_def bind_result_def stat_key_def stringify_count)

lemma update_stats_InrD:
  assumes "update_stats P analysis d = Inr d'"
  shows "\<exists>category b t. get_prop analysis (ascii ''category'') = Inr category
     \<and> d1_bind P category = Inr b \<and> to_string P category = Inr t"
  using assms
  by (auto simp: update_stats_def bind_result_def stat_key_def Let_def split: sum.splits)

lemma store_feedback_InrD:
  assumes "store_feedback P analysis source content d = Inr d1"
    and "get_prop analysis (ascii ''category'') = Inr category"
  shows "\<exists>row b. d1_bind P category = Inr b \<and> feedback d1 = feedback d @ [row]
           \<and> fb_category row = b \<and> aggregated_stats d1 = aggregated_stats d"
  using assms by (auto simp: store_feedback_def bind_result_def split: sum.splits)

section \<open>The workflow, step by step\<close>







section \<open>The examples, evaluated\<close>

lemma seed_wf: "stats_wf (aggregated_stats seed)"
  by (simp add: stats_wf_def seed_def)

lemma bug_report_category: "get_prop bug_report (ascii ''category'') = Inr (JStr (ascii ''bug''))"
  by (simp add: bug_report_def)

lemma bug_report_urgency: "get_prop bug_report (ascii ''urgency'') = Inr (JStr (ascii ''high''))"
  by (simp add: bug_report_def)

lemma fallback_urgency: "get_prop fallback (ascii ''urgency'') = Inr (JStr (ascii ''low''))"
  by (simp add: fallback_def)

lemma store_seed:
  "store_feedback P bug_report (JStr (ascii ''Discord''))
     (JStr (ascii ''The dashboard is loading really slow'')) seed = Inr seed_stored"
  by (simp add: store_feedback_def bind_result_def bug_report_def seed_stored_def seed_def
      seed_row_def next_rowid_def)

lemma count_seed_stored: "update_stats P bug_report seed_stored = Inr seed_counted"
  apply (simp add: update_stats_def bind_result_def bug_report_def stringify_count stat_key_def)
  apply (simp add: seed_counted_def seed_stored_def seed_def seed_row_def sql_eq_def
      insert_or_replace_def select_id_def)
  apply (simp add: ascii_def numeral_3_eq_3)
  done

lemma messages_of_strings:
  "messages P (JStr s) (JStr c) =
     Inr [(ascii ''system'', system_prompt),
          (ascii ''user'', ascii ''Source: '' @ s @ [10] @ ascii ''Feedback: '' @ c)]"
  by (simp add: messages_def bind_result_def)

lemma replying_AI_run:
  "AI_run (replying t) model_name ms = Inr (JObj [(ascii ''response'', JStr t)])"
  by (simp add: replying_def returning_def)

lemma reply_text: "get_prop (JObj [(ascii ''response'', JStr t)]) (ascii ''response'') = Inr (JStr t)"
  by simp

lemma parse_not_json: "JSON_parse (replying t) (ascii ''not json'') = Inl SyntaxError"
  by (simp add: replying_def returning_def parse_table_def bug_report_text_def uncategorised_text_def submission_text_def dquote_def)

lemma parse_empty_object: "JSON_parse (replying t) (ascii ''{}'') = Inr (JObj [])"
  by (simp add: replying_def returning_def parse_table_def bug_report_text_def uncategorised_text_def submission_text_def dquote_def)

lemma parse_bug_report: "JSON_parse (replying t) bug_report_text = Inr bug_report"
  by (simp add: replying_def returning_def parse_table_def)

lemma parse_uncategorised: "JSON_parse (replying t) uncategorised_text = Inr uncategorised"
  by (simp add: replying_def returning_def parse_table_def bug_report_text_def uncategorised_text_def dquote_def)

lemma unprintable_throws: "to_string P unprintable = Inl TypeError"
  by (simp add: unprintable_def)

lemma store_uncategorised:
  "store_feedback P uncategorised (JStr (ascii ''Discord''))
     (JStr (ascii ''The dashboard is loading really slow'')) seed = Inr seed_uncategorised"
  by (simp add: store_feedback_def bind_result_def uncategorised_def seed_uncategorised_def seed_def
      seed_row_def next_rowid_def)

lemma count_uncategorised:
  "update_stats P uncategorised seed_uncategorised = Inr seed_uncategorised_counted"
  apply (simp add: update_stats_def bind_result_def uncategorised_def stringify_count stat_key_def)
  apply (simp add: seed_uncategorised_counted_def seed_uncategorised_def seed_def seed_row_def
      sql_eq_def insert_or_replace_def select_id_def next_rowid_def)
  apply (simp add: ascii_def)
  done

lemma parse_submission: "JSON_parse (replying t) submission_text = Inr submission"
  by (simp add: replying_def returning_def parse_table_def bug_report_text_def uncategorised_text_def submission_text_def dquote_def)

lemma parse_null: "JSON_parse (replying t) (ascii ''null'') = Inr JNull"
  by (simp add: replying_def returning_def parse_table_def bug_report_text_def uncategorised_text_def submission_text_def dquote_def)

lemma returning_null: "AI_run (returning JNull) model_name ms = Inr JNull"
  by (simp add: returning_def)

lemma model_down_AI_run:
  "AI_run model_down model_name ms = Inl (Thrown (JStr (ascii ''model unavailable'')))"
  by (simp add: model_down_def)



lemma check_bug_report:
  "check_urgency P bug_report (JStr (ascii ''Discord'')) (JStr (ascii ''The dashboard is loading really slow''))
     = Inr (JObj
        [(ascii ''alert'', JBool True),
         (ascii ''message'', JStr (siren @ ascii '' High urgency bug detected from Discord'')),
         (ascii ''content'', JStr (ascii ''The dashboard is loading really slow''))])"
  by (simp add: check_urgency_def bind_result_def bug_report_def) (simp add: ascii_def)


lemma post_request_route:
  "req_method (post_request t) = ascii ''POST''"
  "req_pathname (post_request t) = ascii ''/api/feedback''"
  "req_body (post_request t) = t"
  by (simp_all add: post_request_def)

lemma replying_create: "MY_WORKFLOW_create (replying t) params = Inr (ascii ''run-1'')"
  by (simp add: replying_def returning_def)

lemma workflows_down_parse: "JSON_parse workflows_down (ascii ''{}'') = Inr (JObj [])"
  by (simp add: workflows_down_def replying_def returning_def parse_table_def bug_report_text_def uncategorised_text_def
      submission_text_def dquote_def)

lemma workflows_down_parse_submission: "JSON_parse workflows_down submission_text = Inr submission"
  by (simp add: workflows_down_def replying_def returning_def parse_table_def bug_report_text_def uncategorised_text_def
      submission_text_def dquote_def)

lemma workflows_down_create:
  "MY_WORKFLOW_create workflows_down params = Inl (Thrown (JStr (ascii ''workflows unavailable'')))"
  by (simp add: workflows_down_def)

section \<open>Claim C1: what analyze-feedback does with a failure\<close>

text \<open>
  Claim C1, as the code has it. The step fails in two ways, both before the \<^verbatim>\<open>try\<close>, and
  then with what was thrown: the conversion of the source or of the content to a string
  throws while the messages are built (the model is then not called), or the call of the
  model throws. When the call returns, the step returns a classification: the fallback
  when \<^verbatim>\<open>response.response\<close> cannot be read or cannot be converted to a string, or
  \<^verbatim>\<open>JSON.parse\<close> throws on it, and the parsed value itself, as it is, when \<^verbatim>\<open>JSON.parse\<close>
  returns.
\<close>

theorem analyze_feedback_fails_only_before_try:
  "(analyze_feedback P source content = Inl e \<longleftrightarrow>
      messages P source content = Inl e
      \<or> (\<exists>ms. messages P source content = Inr ms \<and> AI_run P model_name ms = Inl e))
   \<and> (messages P source content = Inl e \<longleftrightarrow>
      to_string P source = Inl e
      \<or> (\<exists>s. to_string P source = Inr s \<and> to_string P content = Inl e))
   \<and> (messages P source content = Inr ms \<longrightarrow>
        AI_run P model_name ms = Inr response \<longrightarrow>
        get_prop response (ascii ''response'') = Inl read_error \<longrightarrow>
        analyze_feedback P source content = Inr fallback)
   \<and> (messages P source content = Inr ms \<longrightarrow>
        AI_run P model_name ms = Inr response \<longrightarrow>
        get_prop response (ascii ''response'') = Inr reply \<longrightarrow>
        to_string P reply = Inl convert_error \<longrightarrow>
        analyze_feedback P source content = Inr fallback)
   \<and> (messages P source content = Inr ms \<longrightarrow>
        AI_run P model_name ms = Inr response \<longrightarrow>
        get_prop response (ascii ''response'') = Inr reply \<longrightarrow>
        to_string P reply = Inr t \<longrightarrow>
        JSON_parse P t = Inl parse_error \<longrightarrow>
        analyze_feedback P source content = Inr fallback)
   \<and> (messages P source content = Inr ms \<longrightarrow>
        AI_run P model_name ms = Inr response \<longrightarrow>
        get_prop response (ascii ''response'') = Inr reply \<longrightarrow>
        to_string P reply = Inr t \<longrightarrow>
        JSON_parse P t = Inr result \<longrightarrow>
        analyze_feedback P source content = Inr result)"
proof -
  have fails: "analyze_feedback P source content = Inl e \<longleftrightarrow>
      messages P source content = Inl e
      \<or> (\<exists>ms. messages P source content = Inr ms \<and> AI_run P model_name ms = Inl e)"
    by (auto simp: analyze_feedback_def split: sum.splits)
  have built: "messages P source content = Inl e \<longleftrightarrow>
      to_string P source = Inl e
      \<or> (\<exists>s. to_string P source = Inr s \<and> to_string P content = Inl e)"
    by (auto simp: messages_def bind_result_def split: sum.splits)
  show ?thesis
    unfolding fails built by (simp add: analyze_feedback_def)
qed

theorem analyze_feedback_fails_only_before_try_witness:
  "to_string (replying bug_report_text) unprintable = Inl TypeError
   \<and> analyze_feedback (replying bug_report_text) unprintable (JStr (ascii ''slow'')) = Inl TypeError
   \<and> AI_run model_down model_name
        [(ascii ''system'', system_prompt),
         (ascii ''user'', ascii ''Source: '' @ ascii ''Discord'' @ [10] @ ascii ''Feedback: '' @ ascii ''slow'')]
     = Inl (Thrown (JStr (ascii ''model unavailable'')))
   \<and> analyze_feedback model_down (JStr (ascii ''Discord'')) (JStr (ascii ''slow''))
     = Inl (Thrown (JStr (ascii ''model unavailable'')))
   \<and> get_prop JNull (ascii ''response'') = Inl TypeError
   \<and> analyze_feedback (returning JNull) (JStr (ascii ''Discord'')) (JStr (ascii ''slow''))
     = Inr fallback
   \<and> analyze_feedback (returning (JObj [(ascii ''response'', unprintable)]))
        (JStr (ascii ''Discord'')) (JStr (ascii ''slow''))
     = Inr fallback
   \<and> JSON_parse (replying (ascii ''not json'')) (ascii ''not json'') = Inl SyntaxError
   \<and> analyze_feedback (replying (ascii ''not json'')) (JStr (ascii ''Discord'')) (JStr (ascii ''slow''))
     = Inr fallback
   \<and> JSON_parse (replying bug_report_text) bug_report_text = Inr bug_report
   \<and> analyze_feedback (replying bug_report_text) (JStr (ascii ''Discord'')) (JStr (ascii ''slow''))
     = Inr bug_report"
proof -
  let ?ms = "[(ascii ''system'', system_prompt),
         (ascii ''user'', ascii ''Source: '' @ ascii ''Discord'' @ [10] @ ascii ''Feedback: '' @ ascii ''slow'')]"
  have ms: "\<And>P. messages P (JStr (ascii ''Discord'')) (JStr (ascii ''slow'')) = Inr ?ms"
    by (rule messages_of_strings)
  have str: "\<And>P s. to_string P (JStr s) = Inr s"
    by simp
  have p0: "get_prop JNull (ascii ''response'') = Inl TypeError"
    by simp
  have p1: "get_prop (JObj [(ascii ''response'', unprintable)]) (ascii ''response'') = Inr unprintable"
    by simp
  have odd: "to_string (replying bug_report_text) unprintable = Inl TypeError"
    by (rule unprintable_throws)
  from analyze_feedback_fails_only_before_try [where P = "replying bug_report_text"
      and source = unprintable and content = "JStr (ascii ''slow'')" and e = TypeError] odd
  have r0: "analyze_feedback (replying bug_report_text) unprintable (JStr (ascii ''slow''))
      = Inl TypeError"
    by blast
  from analyze_feedback_fails_only_before_try [where P = model_down
      and source = "JStr (ascii ''Discord'')" and content = "JStr (ascii ''slow'')"
      and e = "Thrown (JStr (ascii ''model unavailable''))"]
    ms [of model_down] model_down_AI_run [of ?ms]
  have r1: "analyze_feedback model_down (JStr (ascii ''Discord'')) (JStr (ascii ''slow''))
      = Inl (Thrown (JStr (ascii ''model unavailable'')))"
    by blast
  from analyze_feedback_fails_only_before_try [where P = "returning JNull"
      and source = "JStr (ascii ''Discord'')" and content = "JStr (ascii ''slow'')"
      and ms = ?ms and response = JNull and read_error = TypeError]
    ms [of "returning JNull"] returning_null [of ?ms] p0
  have r2: "analyze_feedback (returning JNull) (JStr (ascii ''Discord''))
      (JStr (ascii ''slow'')) = Inr fallback"
    by blast
  have a3: "AI_run (returning (JObj [(ascii ''response'', unprintable)])) model_name ?ms
      = Inr (JObj [(ascii ''response'', unprintable)])"
    by (simp add: returning_def)
  from analyze_feedback_fails_only_before_try
      [where P = "returning (JObj [(ascii ''response'', unprintable)])"
      and source = "JStr (ascii ''Discord'')" and content = "JStr (ascii ''slow'')"
      and ms = ?ms and response = "JObj [(ascii ''response'', unprintable)]"
      and reply = unprintable and convert_error = TypeError]
    ms [of "returning (JObj [(ascii ''response'', unprintable)])"] a3 p1
    unprintable_throws [of "returning (JObj [(ascii ''response'', unprintable)])"]
  have r3: "analyze_feedback (returning (JObj [(ascii ''response'', unprintable)]))
      (JStr (ascii ''Discord'')) (JStr (ascii ''slow'')) = Inr fallback"
    by blast
  from analyze_feedback_fails_only_before_try [where P = "replying (ascii ''not json'')"
      and source = "JStr (ascii ''Discord'')" and content = "JStr (ascii ''slow'')"
      and ms = ?ms and response = "JObj [(ascii ''response'', JStr (ascii ''not json''))]"
      and reply = "JStr (ascii ''not json'')" and t = "ascii ''not json''"
      and parse_error = SyntaxError]
    ms [of "replying (ascii ''not json'')"] replying_AI_run [of "ascii ''not json''" ?ms]
    reply_text [of "ascii ''not json''"] str [of "replying (ascii ''not json'')" "ascii ''not json''"]
    parse_not_json [of "ascii ''not json''"]
  have r4: "analyze_feedback (replying (ascii ''not json'')) (JStr (ascii ''Discord''))
      (JStr (ascii ''slow'')) = Inr fallback"
    by blast
  from analyze_feedback_fails_only_before_try [where P = "replying bug_report_text"
      and source = "JStr (ascii ''Discord'')" and content = "JStr (ascii ''slow'')"
      and ms = ?ms and response = "JObj [(ascii ''response'', JStr bug_report_text)]"
      and reply = "JStr bug_report_text" and t = bug_report_text and result = bug_report]
    ms [of "replying bug_report_text"] replying_AI_run [of bug_report_text ?ms]
    reply_text [of bug_report_text] str [of "replying bug_report_text" bug_report_text]
    parse_bug_report [of bug_report_text]
  have r5: "analyze_feedback (replying bug_report_text) (JStr (ascii ''Discord''))
      (JStr (ascii ''slow'')) = Inr bug_report"
    by blast
  from odd r0 r1 r2 r3 r4 r5 p0 show ?thesis
    by (simp add: parse_not_json parse_bug_report model_down_AI_run)
qed

text \<open>
  Claim C1 as stated fails: when the call of the model throws, the step throws the same
  and does not return the fallback; and for a source that cannot be converted to a string
  the step throws before the model is called.
\<close>

theorem model_error_propagates:
  "analyze_feedback model_down (JStr (ascii ''Discord'')) (JStr (ascii ''slow''))
     = Inl (Thrown (JStr (ascii ''model unavailable'')))
   \<and> analyze_feedback model_down (JStr (ascii ''Discord'')) (JStr (ascii ''slow'')) \<noteq> Inr fallback
   \<and> analyze_feedback (replying bug_report_text) unprintable (JStr (ascii ''slow'')) = Inl TypeError"
  by (simp add: analyze_feedback_def messages_of_strings model_down_AI_run)
     (simp add: messages_def bind_result_def unprintable_throws)

section \<open>Claim C2: the fields of a classification\<close>

lemma populated_fallback: "populated fallback"
  by (simp add: populated_def fallback_def)

text \<open>
  Claim C2, as the code has it. A classification the step returns has its four fields
  populated, unless it is the value \<^verbatim>\<open>JSON.parse\<close> made of the model's text: that value
  is returned unchecked, with the fields it happens to have.
\<close>

theorem classification_populated_unless_parsed:
  assumes "analyze_feedback P source content = Inr a"
  shows "populated a \<or>
     (\<exists>ms response reply t. messages P source content = Inr ms
        \<and> AI_run P model_name ms = Inr response
        \<and> get_prop response (ascii ''response'') = Inr reply
        \<and> to_string P reply = Inr t
        \<and> JSON_parse P t = Inr a)"
  using assms by (auto simp: analyze_feedback_def populated_fallback split: sum.splits)

theorem classification_populated_unless_parsed_witness:
  "analyze_feedback (replying (ascii ''not json'')) (JStr (ascii ''Discord'')) (JStr (ascii ''slow''))
     = Inr fallback
   \<and> populated fallback"
proof -
  have run: "analyze_feedback (replying (ascii ''not json'')) (JStr (ascii ''Discord''))
      (JStr (ascii ''slow'')) = Inr fallback"
    by (simp add: analyze_feedback_def messages_of_strings replying_AI_run parse_not_json)
  from classification_populated_unless_parsed [OF run]
  have "populated fallback"
    by (auto simp: messages_of_strings replying_AI_run parse_not_json)
  with run show ?thesis by blast
qed

text \<open>
  Claim C2 as stated fails: on the reply \<^verbatim>\<open>{}\<close>, which parses, the classification is the
  empty object and its \<^verbatim>\<open>sentiment\<close> is \<^verbatim>\<open>undefined\<close>.
\<close>

theorem empty_object_not_populated:
  "analyze_feedback (replying (ascii ''{}'')) (JStr (ascii ''Discord'')) (JStr (ascii ''slow''))
     = Inr (JObj [])
   \<and> get_prop (JObj []) (ascii ''sentiment'') = Inr JUndefined
   \<and> \<not> populated (JObj [])"
  by (simp add: analyze_feedback_def messages_of_strings replying_AI_run parse_empty_object
      populated_def)

section \<open>Claim C3: the urgency gate\<close>

text \<open>
  Claim C3, as the code has it. For a classification whose urgency is the string
  \<^verbatim>\<open>high\<close>: when the category and the source can be converted to strings and the content
  is a string, the step returns an object with \<^verbatim>\<open>alert\<close> true, a \<^verbatim>\<open>message\<close> made of the
  emoji, the words \<^verbatim>\<open>High urgency\<close>, the category as converted, the words
  \<^verbatim>\<open>detected from\<close> and the source as converted, and a field named \<^verbatim>\<open>content\<close> holding the
  first 100 code units of the content, which is all of it when it has no more than 100;
  when the category or the source cannot be converted, or the content is not a string,
  the step throws. For a classification with any other urgency it returns exactly
  \<^verbatim>\<open>{alert: false}\<close>.
\<close>

theorem check_urgency_alert:
  "(get_prop analysis (ascii ''urgency'') = Inr (JStr (ascii ''high'')) \<longrightarrow>
      get_prop analysis (ascii ''category'') = Inr category \<longrightarrow>
      to_string P category = Inr category_text \<longrightarrow>
      to_string P source = Inr source_text \<longrightarrow>
      check_urgency P analysis source (JStr c) = Inr (JObj
        [(ascii ''alert'', JBool True),
         (ascii ''message'',
          JStr (siren @ ascii '' High urgency '' @ category_text
                @ ascii '' detected from '' @ source_text)),
         (ascii ''content'', JStr (take 100 c))]))
   \<and> (get_prop analysis (ascii ''urgency'') = Inr (JStr (ascii ''high'')) \<longrightarrow>
      get_prop analysis (ascii ''category'') = Inr category \<longrightarrow>
      to_string P category = Inr category_text \<longrightarrow>
      to_string P source = Inr source_text \<longrightarrow>
      length c \<le> 100 \<longrightarrow>
      check_urgency P analysis source (JStr c) = Inr (JObj
        [(ascii ''alert'', JBool True),
         (ascii ''message'',
          JStr (siren @ ascii '' High urgency '' @ category_text
                @ ascii '' detected from '' @ source_text)),
         (ascii ''content'', JStr c)]))
   \<and> (get_prop analysis (ascii ''urgency'') = Inr (JStr (ascii ''high'')) \<longrightarrow>
      get_prop analysis (ascii ''category'') = Inr category \<longrightarrow>
      to_string P category = Inl e \<longrightarrow>
      check_urgency P analysis source content = Inl e)
   \<and> (get_prop analysis (ascii ''urgency'') = Inr (JStr (ascii ''high'')) \<longrightarrow>
      get_prop analysis (ascii ''category'') = Inr category \<longrightarrow>
      to_string P category = Inr category_text \<longrightarrow>
      to_string P source = Inl e \<longrightarrow>
      check_urgency P analysis source content = Inl e)
   \<and> (get_prop analysis (ascii ''urgency'') = Inr (JStr (ascii ''high'')) \<longrightarrow>
      get_prop analysis (ascii ''category'') = Inr category \<longrightarrow>
      to_string P category = Inr category_text \<longrightarrow>
      to_string P source = Inr source_text \<longrightarrow>
      (\<forall>c. content \<noteq> JStr c) \<longrightarrow>
      check_urgency P analysis source content = Inl TypeError)
   \<and> (get_prop analysis (ascii ''urgency'') = Inr urgency \<longrightarrow>
      urgency \<noteq> JStr (ascii ''high'') \<longrightarrow>
      check_urgency P analysis source content = Inr (JObj [(ascii ''alert'', JBool False)]))"
proof -
  have not_string: "(\<forall>c. content \<noteq> JStr c) \<Longrightarrow> substring content 0 100 = Inl TypeError"
    by (cases content) auto
  show ?thesis
    using not_string by (auto simp: check_urgency_def bind_result_def)
qed

theorem check_urgency_alert_witness:
  "check_urgency (replying bug_report_text) bug_report (JStr (ascii ''Discord''))
       (JStr (replicate 150 120)) = Inr (JObj
        [(ascii ''alert'', JBool True),
         (ascii ''message'', JStr (siren @ ascii '' High urgency bug detected from Discord'')),
         (ascii ''content'', JStr (replicate 100 120))])
   \<and> check_urgency (replying bug_report_text) bug_report (JStr (ascii ''Discord''))
       (JStr (ascii ''slow'')) = Inr (JObj
        [(ascii ''alert'', JBool True),
         (ascii ''message'', JStr (siren @ ascii '' High urgency bug detected from Discord'')),
         (ascii ''content'', JStr (ascii ''slow''))])
   \<and> check_urgency (replying bug_report_text) unprintable_report (JStr (ascii ''Discord''))
       (JStr (ascii ''slow'')) = Inl TypeError
   \<and> check_urgency (replying bug_report_text) bug_report unprintable (JStr (ascii ''slow''))
       = Inl TypeError
   \<and> check_urgency (replying bug_report_text) bug_report (JStr (ascii ''Discord'')) JNull
       = Inl TypeError
   \<and> check_urgency (replying bug_report_text) fallback (JStr (ascii ''Discord''))
       (JStr (replicate 150 120)) = Inr (JObj [(ascii ''alert'', JBool False)])"
proof -
  let ?P = "replying bug_report_text"
  have low: "JStr (ascii ''low'') \<noteq> JStr (ascii ''high'')" by simp
  have short: "length (ascii ''slow'') \<le> 100" by (simp add: ascii_def)
  have bug: "to_string ?P (JStr (ascii ''bug'')) = Inr (ascii ''bug'')" by simp
  have discord: "to_string ?P (JStr (ascii ''Discord'')) = Inr (ascii ''Discord'')" by simp
  have odd_urgency: "get_prop unprintable_report (ascii ''urgency'') = Inr (JStr (ascii ''high''))"
    by (simp add: unprintable_report_def)
  have odd_category: "get_prop unprintable_report (ascii ''category'') = Inr unprintable"
    by (simp add: unprintable_report_def)
  have no_string: "\<forall>c. JNull \<noteq> JStr c" by simp
  have msg: "siren @ ascii '' High urgency '' @ ascii ''bug''
      @ ascii '' detected from '' @ ascii ''Discord''
      = siren @ ascii '' High urgency bug detected from Discord''"
    by (simp add: ascii_def)
  from check_urgency_alert [where P = ?P and analysis = bug_report
      and category = "JStr (ascii ''bug'')" and category_text = "ascii ''bug''"
      and source = "JStr (ascii ''Discord'')" and source_text = "ascii ''Discord''"
      and c = "replicate 150 120"]
    bug_report_urgency bug_report_category bug discord
  have r1: "check_urgency ?P bug_report (JStr (ascii ''Discord'')) (JStr (replicate 150 120))
      = Inr (JObj
        [(ascii ''alert'', JBool True),
         (ascii ''message'', JStr (siren @ ascii '' High urgency bug detected from Discord'')),
         (ascii ''content'', JStr (replicate 100 120))])"
    unfolding msg by simp
  from check_urgency_alert [where P = ?P and analysis = bug_report
      and category = "JStr (ascii ''bug'')" and category_text = "ascii ''bug''"
      and source = "JStr (ascii ''Discord'')" and source_text = "ascii ''Discord''"
      and c = "ascii ''slow''"]
    bug_report_urgency bug_report_category bug discord short
  have r2: "check_urgency ?P bug_report (JStr (ascii ''Discord'')) (JStr (ascii ''slow''))
      = Inr (JObj
        [(ascii ''alert'', JBool True),
         (ascii ''message'', JStr (siren @ ascii '' High urgency bug detected from Discord'')),
         (ascii ''content'', JStr (ascii ''slow''))])"
    unfolding msg by blast
  from check_urgency_alert [where P = ?P and analysis = unprintable_report
      and category = unprintable and e = TypeError
      and source = "JStr (ascii ''Discord'')" and content = "JStr (ascii ''slow'')"]
    odd_urgency odd_category unprintable_throws [of ?P]
  have r3: "check_urgency ?P unprintable_report (JStr (ascii ''Discord'')) (JStr (ascii ''slow''))
      = Inl TypeError"
    by blast
  from check_urgency_alert [where P = ?P and analysis = bug_report
      and category = "JStr (ascii ''bug'')" and category_text = "ascii ''bug''"
      and source = unprintable and e = TypeError and content = "JStr (ascii ''slow'')"]
    bug_report_urgency bug_report_category bug unprintable_throws [of ?P]
  have r4: "check_urgency ?P bug_report unprintable (JStr (ascii ''slow'')) = Inl TypeError"
    by blast
  from check_urgency_alert [where P = ?P and analysis = bug_report
      and category = "JStr (ascii ''bug'')" and category_text = "ascii ''bug''"
      and source = "JStr (ascii ''Discord'')" and source_text = "ascii ''Discord''"
      and content = JNull]
    bug_report_urgency bug_report_category bug discord no_string
  have r5: "check_urgency ?P bug_report (JStr (ascii ''Discord'')) JNull = Inl TypeError"
    by blast
  from check_urgency_alert [where P = ?P and analysis = fallback
      and urgency = "JStr (ascii ''low'')"
      and source = "JStr (ascii ''Discord'')" and content = "JStr (replicate 150 120)"]
    fallback_urgency low
  have r6: "check_urgency ?P fallback (JStr (ascii ''Discord'')) (JStr (replicate 150 120))
       = Inr (JObj [(ascii ''alert'', JBool False)])"
    by blast
  from r1 r2 r3 r4 r5 r6 show ?thesis by blast
qed

text \<open>
  Claim C3 as stated fails: the alert has no field \<^verbatim>\<open>excerpt\<close>, the prefix of the content
  being in its field \<^verbatim>\<open>content\<close>; for the content \<^verbatim>\<open>null\<close>, which a run accepts and stores,
  the step throws and returns no alert; and for a category or a source that cannot be
  converted to a string it throws as well.
\<close>

theorem alert_has_no_excerpt:
  "check_urgency (replying bug_report_text) bug_report (JStr (ascii ''Discord''))
       (JStr (ascii ''The dashboard is loading really slow''))
     = Inr (JObj
        [(ascii ''alert'', JBool True),
         (ascii ''message'', JStr (siren @ ascii '' High urgency bug detected from Discord'')),
         (ascii ''content'', JStr (ascii ''The dashboard is loading really slow''))])
   \<and> get_prop (JObj
        [(ascii ''alert'', JBool True),
         (ascii ''message'', JStr (siren @ ascii '' High urgency bug detected from Discord'')),
         (ascii ''content'', JStr (ascii ''The dashboard is loading really slow''))]) (ascii ''excerpt'')
     = Inr JUndefined
   \<and> get_prop (JObj
        [(ascii ''alert'', JBool True),
         (ascii ''message'', JStr (siren @ ascii '' High urgency bug detected from Discord'')),
         (ascii ''content'', JStr (ascii ''The dashboard is loading really slow''))]) (ascii ''content'')
     = Inr (JStr (ascii ''The dashboard is loading really slow''))
   \<and> check_urgency (replying bug_report_text) bug_report (JStr (ascii ''Discord'')) JNull
     = Inl TypeError
   \<and> check_urgency (replying bug_report_text) unprintable_report (JStr (ascii ''Discord''))
       (JStr (ascii ''The dashboard is loading really slow''))
     = Inl TypeError
   \<and> check_urgency (replying bug_report_text) bug_report unprintable
       (JStr (ascii ''The dashboard is loading really slow''))
     = Inl TypeError"
  by (simp add: check_bug_report)
     (simp add: check_urgency_def bind_result_def bug_report_def unprintable_report_def
       unprintable_throws)

section \<open>Claim C4: the fallback\<close>

text \<open>
  Claim C4, as the code has it. Whenever \<^verbatim>\<open>JSON.parse\<close> throws on the text of the model's
  reply, the classification is exactly \<^verbatim>\<open>{sentiment: "neutral", category: "unknown",
  urgency: "low", reason: "Could not parse AI response"}\<close>, the reason with a capital C.
\<close>

theorem unparsed_reply_gives_fallback:
  assumes "messages P source content = Inr ms"
    and "AI_run P model_name ms = Inr response"
    and "get_prop response (ascii ''response'') = Inr reply"
    and "to_string P reply = Inr t"
    and "JSON_parse P t = Inl e"
  shows "analyze_feedback P source content = Inr (JObj
     [(ascii ''sentiment'', JStr (ascii ''neutral'')),
      (ascii ''category'', JStr (ascii ''unknown'')),
      (ascii ''urgency'', JStr (ascii ''low'')),
      (ascii ''reason'', JStr (ascii ''Could not parse AI response''))])"
  using assms by (simp add: analyze_feedback_def fallback_def)

theorem unparsed_reply_gives_fallback_witness:
  "AI_run (replying (ascii ''not json'')) model_name
       [(ascii ''system'', system_prompt),
        (ascii ''user'', ascii ''Source: '' @ ascii ''Discord'' @ [10] @ ascii ''Feedback: '' @ ascii ''slow'')]
     = Inr (JObj [(ascii ''response'', JStr (ascii ''not json''))])
   \<and> JSON_parse (replying (ascii ''not json'')) (ascii ''not json'') = Inl SyntaxError
   \<and> analyze_feedback (replying (ascii ''not json'')) (JStr (ascii ''Discord'')) (JStr (ascii ''slow''))
     = Inr (JObj
     [(ascii ''sentiment'', JStr (ascii ''neutral'')),
      (ascii ''category'', JStr (ascii ''unknown'')),
      (ascii ''urgency'', JStr (ascii ''low'')),
      (ascii ''reason'', JStr (ascii ''Could not parse AI response''))])"
proof -
  let ?ms = "[(ascii ''system'', system_prompt),
        (ascii ''user'', ascii ''Source: '' @ ascii ''Discord'' @ [10] @ ascii ''Feedback: '' @ ascii ''slow'')]"
  have m: "messages (replying (ascii ''not json'')) (JStr (ascii ''Discord'')) (JStr (ascii ''slow''))
     = Inr ?ms"
    by (rule messages_of_strings)
  have a: "AI_run (replying (ascii ''not json'')) model_name ?ms
     = Inr (JObj [(ascii ''response'', JStr (ascii ''not json''))])"
    by (rule replying_AI_run)
  have b: "get_prop (JObj [(ascii ''response'', JStr (ascii ''not json''))]) (ascii ''response'')
     = Inr (JStr (ascii ''not json''))"
    by (rule reply_text)
  have t: "to_string (replying (ascii ''not json'')) (JStr (ascii ''not json'')) = Inr (ascii ''not json'')"
    by simp
  have c: "JSON_parse (replying (ascii ''not json'')) (ascii ''not json'') = Inl SyntaxError"
    by (rule parse_not_json)
  from unparsed_reply_gives_fallback [OF m a b t c] a c show ?thesis by blast
qed

text \<open>
  Claim C4 as stated fails: on the reply \<^verbatim>\<open>not json\<close> the classification is not the object
  whose reason is \<^verbatim>\<open>could not parse AI response\<close>, and on the reply \<^verbatim>\<open>{}\<close>, which is JSON but
  not the expected structure, the classification is the empty object and not the default.
\<close>

theorem reason_is_capitalised:
  "analyze_feedback (replying (ascii ''not json'')) (JStr (ascii ''Discord'')) (JStr (ascii ''slow''))
     \<noteq> Inr (JObj
     [(ascii ''sentiment'', JStr (ascii ''neutral'')),
      (ascii ''category'', JStr (ascii ''unknown'')),
      (ascii ''urgency'', JStr (ascii ''low'')),
      (ascii ''reason'', JStr (ascii ''could not parse AI response''))])
   \<and> analyze_feedback (replying (ascii ''{}'')) (JStr (ascii ''Discord'')) (JStr (ascii ''slow''))
     = Inr (JObj [])"
  by (simp add: analyze_feedback_def messages_of_strings replying_AI_run parse_not_json
      parse_empty_object fallback_def)

section \<open>Claim C5: the order of the steps and the result\<close>




section \<open>Claim C6: update-stats after store-feedback\<close>

text \<open>
  Claim C6, as the code has it. \<^verbatim>\<open>update-stats\<close>, run after \<^verbatim>\<open>store-feedback\<close> for an
  item with any category the store accepted, on a statistics table that satisfies its
  constraints: it succeeds and leaves the feedback table alone; afterwards exactly one
  row has the key \<^verbatim>\<open>category_\<close> followed by the category converted to a string; when the
  category was stored as a value other than NULL (every string is), the value of that
  row is the text of the count of the feedback rows holding that value, the row just
  stored among them (one more than before the store, whatever value was stored before);
  when the category was stored as NULL, the value is the text of the count 0, the row
  just stored not being counted; the id of the row is the id of the row that had the
  key, or an id no row had when no row had the key; the rows of the other keys are as
  they were; and the table satisfies its constraints again, so no key has two rows.
\<close>

theorem update_stats_counts_stored_record:
  assumes wf: "stats_wf (aggregated_stats d)"
    and cat: "get_prop analysis (ascii ''category'') = Inr category"
    and stored: "store_feedback P analysis source content d = Inr d1"
  shows "\<exists>d2 i b c. d1_bind P category = Inr b
      \<and> to_string P category = Inr c
      \<and> update_stats P analysis d1 = Inr d2
      \<and> feedback d2 = feedback d1
      \<and> filter (\<lambda>r. stat_type r = SqlText (ascii ''category_'' @ c)) (aggregated_stats d2) =
          [\<lparr>st_id = i, stat_type = SqlText (ascii ''category_'' @ c),
            stat_value = SqlText (count_text
              (if b = SqlNull then 0
               else Suc (length (filter (\<lambda>r. fb_category r = b) (feedback d)))))\<rparr>]
      \<and> (case select_id (SqlText (ascii ''category_'' @ c)) (aggregated_stats d) of
            None \<Rightarrow> i \<notin> set (map st_id (aggregated_stats d))
          | Some j \<Rightarrow> i = j)
      \<and> filter (\<lambda>r. stat_type r \<noteq> SqlText (ascii ''category_'' @ c)) (aggregated_stats d2) =
          filter (\<lambda>r. stat_type r \<noteq> SqlText (ascii ''category_'' @ c)) (aggregated_stats d)
      \<and> stats_wf (aggregated_stats d2)"
proof -
  from store_feedback_InrD [OF stored cat] obtain row b where
    b: "d1_bind P category = Inr b"
    and fb: "feedback d1 = feedback d @ [row]" and row: "fb_category row = b"
    and st: "aggregated_stats d1 = aggregated_stats d"
    by blast
  from bound_has_text [OF b] obtain c where c: "to_string P category = Inr c"
    by blast
  let ?k = "ascii ''category_'' @ c"
  let ?n = "if b = SqlNull then 0 else Suc (length (filter (\<lambda>r. fb_category r = b) (feedback d)))"
  have n: "length (filter (\<lambda>r. sql_eq (fb_category r) b) (feedback d1)) = ?n"
  proof (cases "b = SqlNull")
    case True
    then show ?thesis by (simp add: sql_eq_def)
  next
    case False
    then show ?thesis by (simp add: fb row sql_eq_same)
  qed
  let ?i = "upsert_id ?k (aggregated_stats d)"
  let ?d2 = "d1\<lparr>aggregated_stats :=
      insert_or_replace (SqlText ?k) (SqlText ?k) (SqlText (count_text ?n)) (aggregated_stats d)\<rparr>"
  have run: "update_stats P analysis d1 = Inr ?d2"
    unfolding update_stats_eq [OF cat b c, of d1] n st by (rule refl)
  have rows: "aggregated_stats ?d2 =
      filter (\<lambda>r. stat_type r \<noteq> SqlText ?k) (aggregated_stats d) @
        [\<lparr>st_id = ?i, stat_type = SqlText ?k, stat_value = SqlText (count_text ?n)\<rparr>]"
    by (simp add: upsert_rows [OF wf])
  have id: "case select_id (SqlText ?k) (aggregated_stats d) of
       None \<Rightarrow> ?i \<notin> set (map st_id (aggregated_stats d)) | Some j \<Rightarrow> ?i = j"
    using next_rowid_fresh [of "map st_id (aggregated_stats d)"]
    by (simp add: upsert_id_def split: option.splits)
  have "stats_wf (aggregated_stats ?d2)" using upsert_wf [OF wf] by simp
  moreover have "feedback ?d2 = feedback d1" by simp
  moreover have "filter (\<lambda>r. stat_type r = SqlText ?k) (aggregated_stats ?d2) =
      [\<lparr>st_id = ?i, stat_type = SqlText ?k, stat_value = SqlText (count_text ?n)\<rparr>]"
    unfolding rows by simp
  moreover have "filter (\<lambda>r. stat_type r \<noteq> SqlText ?k) (aggregated_stats ?d2) =
      filter (\<lambda>r. stat_type r \<noteq> SqlText ?k) (aggregated_stats d)"
    unfolding rows by simp
  ultimately show ?thesis using run id b c by blast
qed

theorem update_stats_counts_stored_record_witness:
  "stats_wf (aggregated_stats seed)
   \<and> get_prop bug_report (ascii ''category'') = Inr (JStr (ascii ''bug''))
   \<and> store_feedback (replying bug_report_text) bug_report (JStr (ascii ''Discord''))
        (JStr (ascii ''The dashboard is loading really slow'')) seed = Inr seed_stored
   \<and> (\<exists>d2. update_stats (replying bug_report_text) bug_report seed_stored = Inr d2
        \<and> feedback d2 = feedback seed_stored
        \<and> filter (\<lambda>r. stat_type r = SqlText (ascii ''category_bug'')) (aggregated_stats d2) =
            [\<lparr>st_id = 1, stat_type = SqlText (ascii ''category_bug''),
              stat_value = SqlText (count_text 3)\<rparr>]
        \<and> stats_wf (aggregated_stats d2))"
proof -
  let ?P = "replying bug_report_text"
  have sel: "select_id (SqlText (ascii ''category_bug'')) (aggregated_stats seed) = Some 1"
    by (simp add: select_id_def seed_def sql_eq_def ascii_def)
  have cnt: "length (filter (\<lambda>r. fb_category r = SqlText (ascii ''bug'')) (feedback seed)) = 2"
    by (simp add: seed_def seed_row_def)
  have key: "ascii ''category_'' @ ascii ''bug'' = ascii ''category_bug''"
    by (simp add: ascii_def)
  from update_stats_counts_stored_record [OF seed_wf bug_report_category store_seed [of ?P]]
  obtain d2 i b c where
      "d1_bind ?P (JStr (ascii ''bug'')) = Inr b"
      "to_string ?P (JStr (ascii ''bug'')) = Inr c"
      "update_stats ?P bug_report seed_stored = Inr d2"
      "feedback d2 = feedback seed_stored"
      "filter (\<lambda>r. stat_type r = SqlText (ascii ''category_'' @ c)) (aggregated_stats d2) =
          [\<lparr>st_id = i, stat_type = SqlText (ascii ''category_'' @ c),
            stat_value = SqlText (count_text
              (if b = SqlNull then 0
               else Suc (length (filter (\<lambda>r. fb_category r = b) (feedback seed)))))\<rparr>]"
      "case select_id (SqlText (ascii ''category_'' @ c)) (aggregated_stats seed) of
            None \<Rightarrow> i \<notin> set (map st_id (aggregated_stats seed))
          | Some j \<Rightarrow> i = j"
      "stats_wf (aggregated_stats d2)"
    by blast
  moreover from this have "b = SqlText (ascii ''bug'')" "c = ascii ''bug''"
    by auto
  ultimately have "\<exists>d2. update_stats ?P bug_report seed_stored = Inr d2
        \<and> feedback d2 = feedback seed_stored
        \<and> filter (\<lambda>r. stat_type r = SqlText (ascii ''category_bug'')) (aggregated_stats d2) =
            [\<lparr>st_id = 1, stat_type = SqlText (ascii ''category_bug''),
              stat_value = SqlText (count_text 3)\<rparr>]
        \<and> stats_wf (aggregated_stats d2)"
    by (auto simp: key sel cnt numeral_3_eq_3)
  then show ?thesis using seed_wf bug_report_category store_seed by blast
qed

text \<open>
  Claim C6 as stated fails: for the reply of the model whose category is \<^verbatim>\<open>null\<close>,
  \<^verbatim>\<open>store-feedback\<close> stores the row with the category NULL, and \<^verbatim>\<open>update-stats\<close>, run after
  it, stores under the key \<^verbatim>\<open>category_null\<close> the count 0: the count does not include the
  row just written.
\<close>

theorem null_category_not_counted:
  "analyze_feedback (replying uncategorised_text) (JStr (ascii ''Discord''))
       (JStr (ascii ''The dashboard is loading really slow'')) = Inr uncategorised
   \<and> get_prop uncategorised (ascii ''category'') = Inr JNull
   \<and> store_feedback (replying uncategorised_text) uncategorised (JStr (ascii ''Discord''))
       (JStr (ascii ''The dashboard is loading really slow'')) seed = Inr seed_uncategorised
   \<and> fb_category (last (feedback seed_uncategorised)) = SqlNull
   \<and> update_stats (replying uncategorised_text) uncategorised seed_uncategorised
       = Inr seed_uncategorised_counted
   \<and> last (aggregated_stats seed_uncategorised_counted)
       = \<lparr>st_id = 2, stat_type = SqlText (ascii ''category_null''),
          stat_value = SqlText (count_text 0)\<rparr>"
  by (simp add: analyze_feedback_def messages_of_strings replying_AI_run parse_uncategorised
      store_uncategorised count_uncategorised)
     (simp add: uncategorised_def seed_uncategorised_def seed_uncategorised_counted_def)

section \<open>Claim C7: update-stats twice\<close>

text \<open>
  Claim C7. On a statistics table that satisfies its constraints, \<^verbatim>\<open>update-stats\<close> run
  twice in a row, for any classification, does what one run does: the second run returns
  the database the first left (and when the first throws, that is the outcome).
\<close>

theorem update_stats_idempotent:
  assumes wf: "stats_wf (aggregated_stats d)"
  shows "bind_result (update_stats P analysis d) (update_stats P analysis)
     = update_stats P analysis d"
proof (cases "update_stats P analysis d")
  case (Inl e)
  then show ?thesis by (simp add: bind_result_def)
next
  case (Inr d1)
  from update_stats_InrD [OF Inr] obtain category b c where
    cat: "get_prop analysis (ascii ''category'') = Inr category"
    and b: "d1_bind P category = Inr b" and c: "to_string P category = Inr c"
    by blast
  let ?k = "SqlText (ascii ''category_'' @ c)"
  let ?v = "SqlText (count_text (length (filter (\<lambda>r. sql_eq (fb_category r) b) (feedback d))))"
  have d1: "d1 = d\<lparr>aggregated_stats := insert_or_replace ?k ?k ?v (aggregated_stats d)\<rparr>"
    using update_stats_eq [OF cat b c, of d] Inr by simp
  have "update_stats P analysis d1 =
      Inr (d1\<lparr>aggregated_stats := insert_or_replace ?k ?k ?v (insert_or_replace ?k ?k ?v (aggregated_stats d))\<rparr>)"
    using update_stats_eq [OF cat b c, of d1] by (simp add: d1)
  also have "\<dots> = Inr d1" by (simp add: upsert_twice [OF wf] d1)
  finally show ?thesis using Inr by (simp add: bind_result_def)
qed

theorem update_stats_idempotent_witness:
  "stats_wf (aggregated_stats seed_stored)
   \<and> update_stats (replying bug_report_text) bug_report seed_stored = Inr seed_counted
   \<and> update_stats (replying bug_report_text) bug_report seed_counted = Inr seed_counted"
proof -
  have wf: "stats_wf (aggregated_stats seed_stored)"
    by (simp add: stats_wf_def seed_stored_def seed_def)
  from update_stats_idempotent [OF wf, of "replying bug_report_text" bug_report]
  have "update_stats (replying bug_report_text) bug_report seed_counted = Inr seed_counted"
    by (simp add: count_seed_stored bind_result_def)
  then show ?thesis using wf count_seed_stored by blast
qed

section \<open>Claim C8: the answers of POST /api/feedback\<close>

text \<open>
  Claim C8, as the code has it. On \<^verbatim>\<open>POST /api/feedback\<close>: when the body does not parse
  as JSON, the response has status 400 and the body \<^verbatim>\<open>{error: "Invalid request body"}\<close>,
  and the world is as before (no row stored, no instance created); when the body parses
  and the creation of the workflow instance returns, the response is
  \<^verbatim>\<open>{success: true, workflowId}\<close> with the id of the instance created, whose parameters are
  the parsed body; when the body parses and the creation throws, the response is the
  same 400 and the world is as before.
\<close>

theorem post_feedback_responses:
  assumes "req_method request = ascii ''POST''" and "req_pathname request = ascii ''/api/feedback''"
  shows "(JSON_parse P (req_body request) = Inl e \<longrightarrow>
      fetch P read_routes request w =
        (\<lparr>status = 400, headers = corsHeaders,
          resp_body = JsonBody (JObj [(ascii ''error'', JStr (ascii ''Invalid request body''))])\<rparr>, w))
    \<and> (JSON_parse P (req_body request) = Inr body \<longrightarrow>
       MY_WORKFLOW_create P body = Inr instance_id \<longrightarrow>
      fetch P read_routes request w =
        (\<lparr>status = 200, headers = corsHeaders,
          resp_body = JsonBody (JObj [(ascii ''success'', JBool True),
                                     (ascii ''workflowId'', JStr instance_id)])\<rparr>,
         w\<lparr>instances := instances w @ [(instance_id, body)]\<rparr>))
    \<and> (JSON_parse P (req_body request) = Inr body \<longrightarrow>
       MY_WORKFLOW_create P body = Inl e \<longrightarrow>
      fetch P read_routes request w =
        (\<lparr>status = 400, headers = corsHeaders,
          resp_body = JsonBody (JObj [(ascii ''error'', JStr (ascii ''Invalid request body''))])\<rparr>, w))"
  using assms by (simp add: fetch_def post_feedback_def invalid_request_body_def)

theorem post_feedback_responses_witness:
  "JSON_parse (replying []) (ascii ''not json'') = Inl SyntaxError
   \<and> fetch (replying []) not_found (post_request (ascii ''not json'')) seed_world =
        (\<lparr>status = 400, headers = corsHeaders,
          resp_body = JsonBody (JObj [(ascii ''error'', JStr (ascii ''Invalid request body''))])\<rparr>,
         seed_world)
   \<and> JSON_parse (replying []) submission_text = Inr submission
   \<and> MY_WORKFLOW_create (replying []) submission = Inr (ascii ''run-1'')
   \<and> fetch (replying []) not_found (post_request submission_text) seed_world =
        (\<lparr>status = 200, headers = corsHeaders,
          resp_body = JsonBody (JObj [(ascii ''success'', JBool True),
                                     (ascii ''workflowId'', JStr (ascii ''run-1''))])\<rparr>,
         seed_world\<lparr>instances := instances seed_world @ [(ascii ''run-1'', submission)]\<rparr>)
   \<and> JSON_parse workflows_down submission_text = Inr submission
   \<and> MY_WORKFLOW_create workflows_down submission = Inl (Thrown (JStr (ascii ''workflows unavailable'')))
   \<and> fetch workflows_down not_found (post_request submission_text) seed_world =
        (\<lparr>status = 400, headers = corsHeaders,
          resp_body = JsonBody (JObj [(ascii ''error'', JStr (ascii ''Invalid request body''))])\<rparr>,
         seed_world)"
proof -
  have bad: "JSON_parse (replying []) (req_body (post_request (ascii ''not json''))) = Inl SyntaxError"
    by (simp add: post_request_route parse_not_json)
  have good: "JSON_parse (replying []) (req_body (post_request submission_text)) = Inr submission"
    by (simp add: post_request_route parse_submission)
  have good': "JSON_parse workflows_down (req_body (post_request submission_text)) = Inr submission"
    by (simp add: post_request_route workflows_down_parse_submission)
  have down: "MY_WORKFLOW_create workflows_down submission
      = Inl (Thrown (JStr (ascii ''workflows unavailable'')))"
    by (rule workflows_down_create)
  from post_feedback_responses [OF post_request_route(1,2), where P = "replying []"
      and t1 = "ascii ''not json''" and e = SyntaxError and read_routes = not_found and w = seed_world] bad
  have r1: "fetch (replying []) not_found (post_request (ascii ''not json'')) seed_world =
        (\<lparr>status = 400, headers = corsHeaders,
          resp_body = JsonBody (JObj [(ascii ''error'', JStr (ascii ''Invalid request body''))])\<rparr>,
         seed_world)"
    by blast
  from post_feedback_responses [OF post_request_route(1,2), where P = "replying []"
      and t1 = submission_text and body = submission and instance_id = "ascii ''run-1''"
      and read_routes = not_found and w = seed_world] good replying_create
  have r2: "fetch (replying []) not_found (post_request submission_text) seed_world =
        (\<lparr>status = 200, headers = corsHeaders,
          resp_body = JsonBody (JObj [(ascii ''success'', JBool True),
                                     (ascii ''workflowId'', JStr (ascii ''run-1''))])\<rparr>,
         seed_world\<lparr>instances := instances seed_world @ [(ascii ''run-1'', submission)]\<rparr>)"
    by blast
  from post_feedback_responses [OF post_request_route(1,2), where P = workflows_down
      and t1 = submission_text and body = submission
      and e = "Thrown (JStr (ascii ''workflows unavailable''))"
      and read_routes = not_found and w = seed_world] good' down
  have r3: "fetch workflows_down not_found (post_request submission_text) seed_world =
        (\<lparr>status = 400, headers = corsHeaders,
          resp_body = JsonBody (JObj [(ascii ''error'', JStr (ascii ''Invalid request body''))])\<rparr>,
         seed_world)"
    by blast
  from r1 r2 r3 bad good good' down replying_create show ?thesis
    by (simp add: post_request_route)
qed

text \<open>
  Claim C8 as stated fails: a body that parses is answered with status 400 when the
  creation of the workflow instance throws.
\<close>

theorem parsed_body_answered_400:
  "JSON_parse workflows_down (ascii ''{}'') = Inr (JObj [])
   \<and> fetch workflows_down not_found (post_request (ascii ''{}'')) seed_world =
        (\<lparr>status = 400, headers = corsHeaders,
          resp_body = JsonBody (JObj [(ascii ''error'', JStr (ascii ''Invalid request body''))])\<rparr>,
         seed_world)"
  by (simp add: workflows_down_parse fetch_def post_feedback_def post_request_route)
     (simp add: workflows_down_create invalid_request_body_def)

section \<open>Claim C9: the value stored\<close>

text \<open>
  Claim C9. The value \<^verbatim>\<open>update-stats\<close> stores is the JSON text of the whole row the count
  query returns, \<^verbatim>\<open>{"count":n}\<close>, and not the digits of \<open>n\<close> alone: whenever the step
  succeeds, the row it writes has the key \<^verbatim>\<open>category_\<close> followed by the category and that
  text as its value, \<open>n\<close> being the \<^verbatim>\<open>count\<close> of the query's row.
\<close>

theorem stat_value_is_serialized_row:
  assumes "update_stats P analysis d = Inr d'"
  shows "\<exists>category b c n. get_prop analysis (ascii ''category'') = Inr category
      \<and> d1_bind P category = Inr b
      \<and> to_string P category = Inr c
      \<and> stat_key P category = Inr (ascii ''category_'' @ c)
      \<and> count_category b (feedback d) = JObj [(ascii ''count'', JNum (int n))]
      \<and> JSON_stringify P (count_category b (feedback d))
          = JStr (ascii (''{'' @ dquote @ ''count'' @ dquote @ '':'') @ show_nat n @ ascii ''}'')
      \<and> aggregated_stats d' =
          filter (\<lambda>r. st_id r \<noteq> upsert_id (ascii ''category_'' @ c) (aggregated_stats d))
            (aggregated_stats d) @
          [\<lparr>st_id = upsert_id (ascii ''category_'' @ c) (aggregated_stats d),
            stat_type = SqlText (ascii ''category_'' @ c),
            stat_value = SqlText (ascii (''{'' @ dquote @ ''count'' @ dquote @ '':'') @ show_nat n @ ascii ''}'')\<rparr>]
      \<and> ascii (''{'' @ dquote @ ''count'' @ dquote @ '':'') @ show_nat n @ ascii ''}'' \<noteq> show_nat n"
proof -
  from update_stats_InrD [OF assms] obtain category b c where
    cat: "get_prop analysis (ascii ''category'') = Inr category"
    and b: "d1_bind P category = Inr b" and c: "to_string P category = Inr c"
    by blast
  let ?k = "ascii ''category_'' @ c"
  let ?n = "length (filter (\<lambda>r. sql_eq (fb_category r) b) (feedback d))"
  have "d' = d\<lparr>aggregated_stats :=
      insert_or_replace (SqlText ?k) (SqlText ?k) (SqlText (count_text ?n)) (aggregated_stats d)\<rparr>"
    using update_stats_eq [OF cat b c, of d] assms by simp
  then have "aggregated_stats d' =
      filter (\<lambda>r. st_id r \<noteq> upsert_id ?k (aggregated_stats d)) (aggregated_stats d) @
      [\<lparr>st_id = upsert_id ?k (aggregated_stats d),
        stat_type = SqlText ?k,
        stat_value = SqlText (ascii (''{'' @ dquote @ ''count'' @ dquote @ '':'') @ show_nat ?n @ ascii ''}'')\<rparr>]"
    by (simp add: insert_or_replace_eq count_text_def)
  moreover have "count_category b (feedback d) = JObj [(ascii ''count'', JNum (int ?n))]"
    by (simp add: count_category_def)
  moreover have "JSON_stringify P (count_category b (feedback d))
      = JStr (ascii (''{'' @ dquote @ ''count'' @ dquote @ '':'') @ show_nat ?n @ ascii ''}'')"
    by (simp add: stringify_count count_text_def)
  moreover have "ascii (''{'' @ dquote @ ''count'' @ dquote @ '':'') @ show_nat ?n @ ascii ''}'' \<noteq> show_nat ?n"
    using count_text_not_bare [of ?n] by (simp add: count_text_def)
  moreover have "stat_key P category = Inr ?k"
    by (simp add: stat_key_def bind_result_def c)
  ultimately show ?thesis using cat b c by blast
qed

theorem stat_value_is_serialized_row_witness:
  "update_stats (replying bug_report_text) bug_report seed_stored = Inr seed_counted
   \<and> stat_value (last (aggregated_stats seed_counted)) =
       SqlText (ascii (''{'' @ dquote @ ''count'' @ dquote @ '':3}''))
   \<and> stat_value (last (aggregated_stats seed_counted)) \<noteq> SqlText (ascii ''3'')"
proof -
  let ?P = "replying bug_report_text"
  from stat_value_is_serialized_row [OF count_seed_stored [of ?P]]
  obtain category b n where
    b: "get_prop bug_report (ascii ''category'') = Inr category" "d1_bind ?P category = Inr b"
    and n: "count_category b (feedback seed_stored) = JObj [(ascii ''count'', JNum (int n))]"
    and rows: "stat_value (last (aggregated_stats seed_counted)) =
          SqlText (ascii (''{'' @ dquote @ ''count'' @ dquote @ '':'') @ show_nat n @ ascii ''}'')"
    by force
  from b have "b = SqlText (ascii ''bug'')" by (auto simp: bug_report_def)
  with n have "n = 3"
    by (simp add: count_category_def seed_stored_def seed_def seed_row_def sql_eq_def)
  with rows show ?thesis
    using count_seed_stored [of ?P] by (simp add: show_nat_digit ascii_def)
qed

section \<open>Claim C10: no validation of the body\<close>

text \<open>
  Claim C10. \<^verbatim>\<open>POST /api/feedback\<close> answers with status 400 exactly when \<^verbatim>\<open>request.json()\<close>
  throws or the creation of the workflow instance throws. Otherwise, whatever value the
  body parsed to, the status is 200, the response is \<^verbatim>\<open>{success: true, workflowId}\<close> and an
  instance is created with that value as its parameters: no field is looked at.
\<close>

theorem post_feedback_accepts_any_json:
  assumes "req_method request = ascii ''POST''" and "req_pathname request = ascii ''/api/feedback''"
  shows "(status (fst (fetch P read_routes request w)) = 400 \<longleftrightarrow>
      (\<exists>e. JSON_parse P (req_body request) = Inl e)
      \<or> (\<exists>body e. JSON_parse P (req_body request) = Inr body \<and> MY_WORKFLOW_create P body = Inl e))
    \<and> (JSON_parse P (req_body request) = Inr body \<longrightarrow>
       MY_WORKFLOW_create P body = Inr instance_id \<longrightarrow>
         status (fst (fetch P read_routes request w)) = 200
       \<and> resp_body (fst (fetch P read_routes request w)) =
           JsonBody (JObj [(ascii ''success'', JBool True), (ascii ''workflowId'', JStr instance_id)])
       \<and> snd (fetch P read_routes request w) = w\<lparr>instances := instances w @ [(instance_id, body)]\<rparr>)"
  using assms
  by (auto simp: fetch_def post_feedback_def invalid_request_body_def split: sum.splits)

theorem post_feedback_accepts_any_json_witness:
  "JSON_parse (replying []) (ascii ''{}'') = Inr (JObj [])
   \<and> status (fst (fetch (replying []) not_found (post_request (ascii ''{}'')) seed_world)) = 200
   \<and> snd (fetch (replying []) not_found (post_request (ascii ''{}'')) seed_world)
       = seed_world\<lparr>instances := instances seed_world @ [(ascii ''run-1'', JObj [])]\<rparr>
   \<and> JSON_parse (replying []) (ascii ''null'') = Inr JNull
   \<and> status (fst (fetch (replying []) not_found (post_request (ascii ''null'')) seed_world)) = 200
   \<and> snd (fetch (replying []) not_found (post_request (ascii ''null'')) seed_world)
       = seed_world\<lparr>instances := instances seed_world @ [(ascii ''run-1'', JNull)]\<rparr>
   \<and> JSON_parse (replying []) (ascii ''not json'') = Inl SyntaxError
   \<and> status (fst (fetch (replying []) not_found (post_request (ascii ''not json'')) seed_world)) = 400"
proof -
  have p1: "JSON_parse (replying []) (req_body (post_request (ascii ''{}''))) = Inr (JObj [])"
    by (simp add: post_request_route parse_empty_object)
  have p2: "JSON_parse (replying []) (req_body (post_request (ascii ''null''))) = Inr JNull"
    by (simp add: post_request_route parse_null)
  have p3: "JSON_parse (replying []) (req_body (post_request (ascii ''not json''))) = Inl SyntaxError"
    by (simp add: post_request_route parse_not_json)
  from post_feedback_accepts_any_json [OF post_request_route(1,2), where P = "replying []"
      and t1 = "ascii ''{}''" and body = "JObj []" and instance_id = "ascii ''run-1''"
      and read_routes = not_found and w = seed_world] p1 replying_create
  have r1: "status (fst (fetch (replying []) not_found (post_request (ascii ''{}'')) seed_world)) = 200
     \<and> snd (fetch (replying []) not_found (post_request (ascii ''{}'')) seed_world)
       = seed_world\<lparr>instances := instances seed_world @ [(ascii ''run-1'', JObj [])]\<rparr>"
    by blast
  from post_feedback_accepts_any_json [OF post_request_route(1,2), where P = "replying []"
      and t1 = "ascii ''null''" and body = JNull and instance_id = "ascii ''run-1''"
      and read_routes = not_found and w = seed_world] p2 replying_create
  have r2: "status (fst (fetch (replying []) not_found (post_request (ascii ''null'')) seed_world)) = 200
     \<and> snd (fetch (replying []) not_found (post_request (ascii ''null'')) seed_world)
       = seed_world\<lparr>instances := instances seed_world @ [(ascii ''run-1'', JNull)]\<rparr>"
    by blast
  from post_feedback_accepts_any_json [OF post_request_route(1,2), where P = "replying []"
      and t1 = "ascii ''not json''" and read_routes = not_found and w = seed_world] p3
  have r3: "status (fst (fetch (replying []) not_found (post_request (ascii ''not json'')) seed_world)) = 400"
    by blast
  from r1 r2 r3 p1 p2 p3 show ?thesis by (simp add: post_request_route)
qed

end
